theory Spec2Isabelle
  imports Main "HOL-Library.Word"
begin

section \<open>The proxy-wasm host as the two filters use it\<close>

text \<open>
  Both filters are Go programs that run inside a proxy and reach everything outside
  themselves through the \<^verbatim>\<open>proxywasm\<close> package: reading and writing the headers of
  the intercepted request, dispatching one out-of-band HTTP call, reading the body of its
  answer, sending a local (synthesized) response, resuming the paused request and logging.
  The host is modelled as a record that holds what these calls read and a history of what
  they did. A Go \<^verbatim>\<open>error\<close> is a value carrying its message; a call that returns
  \<^verbatim>\<open>(value, err)\<close> returns a sum here, \<open>Inl\<close> the error.
\<close>

datatype error = Err string

datatype action = ActionContinue | ActionPause

datatype log_level = LogInfo | LogError

datatype log_arg = ArgString string | ArgInt int | ArgUint32 "32 word" | ArgError error

type_synonym headers = "(string \<times> string) list"

record http_call =
  call_cluster :: string
  call_headers :: headers
  call_body :: string
  call_trailers :: headers
  call_timeout :: nat

record local_response =
  status_code :: nat
  response_headers :: headers
  response_body :: string
  grpc_status :: int

record host =
  request_headers :: headers
  upstream_response_headers :: headers
  header_write_error :: "error option"
  dispatch_error :: "error option"
  next_callout_id :: "32 word"
  call_response_body :: "string option"
  dispatched :: "http_call list"
  local_responses :: "local_response list"
  resume_calls :: nat
  logs :: "(log_level \<times> string \<times> log_arg list) list"

definition ErrorStatusNotFound :: error where
  "ErrorStatusNotFound = Err ''error status returned by host: not found''"

text \<open>Reading a header fails when the request has no header of that name; the first
  value wins when a name occurs more than once.\<close>

definition GetHttpRequestHeader :: "string \<Rightarrow> host \<Rightarrow> error + string" where
  "GetHttpRequestHeader key h =
     (case map_of (request_headers h) key of
        None \<Rightarrow> Inl ErrorStatusNotFound
      | Some v \<Rightarrow> Inr v)"

definition GetHttpResponseHeader :: "string \<Rightarrow> host \<Rightarrow> error + string" where
  "GetHttpResponseHeader key h =
     (case map_of (upstream_response_headers h) key of
        None \<Rightarrow> Inl ErrorStatusNotFound
      | Some v \<Rightarrow> Inr v)"

text \<open>Header writes: adding appends one more value under the name, replacing removes
  every value of the name and adds the new one. The host may refuse a write
  (\<open>header_write_error\<close>); the header map is then left as it was.\<close>

definition AddHttpRequestHeader :: "string \<Rightarrow> string \<Rightarrow> host \<Rightarrow> error option \<times> host" where
  "AddHttpRequestHeader key v h =
     (case header_write_error h of
        Some e \<Rightarrow> (Some e, h)
      | None \<Rightarrow> (None, h\<lparr>request_headers := request_headers h @ [(key, v)]\<rparr>))"

definition ReplaceHttpRequestHeader :: "string \<Rightarrow> string \<Rightarrow> host \<Rightarrow> error option \<times> host" where
  "ReplaceHttpRequestHeader key v h =
     (case header_write_error h of
        Some e \<Rightarrow> (Some e, h)
      | None \<Rightarrow>
          (None, h\<lparr>request_headers :=
                     filter (\<lambda>kv. fst kv \<noteq> key) (request_headers h) @ [(key, v)]\<rparr>))"

text \<open>Dispatching hands one call to the host. An accepted call is recorded and
  answered with a fresh callout identifier; a refused one leaves no trace.\<close>

definition DispatchHttpCall ::
  "string \<Rightarrow> headers \<Rightarrow> string \<Rightarrow> headers \<Rightarrow> nat \<Rightarrow> host \<Rightarrow> (error + 32 word) \<times> host" where
  "DispatchHttpCall cl hs body trailers timeout h =
     (case dispatch_error h of
        Some e \<Rightarrow> (Inl e, h)
      | None \<Rightarrow>
          (Inr (next_callout_id h),
           h\<lparr>dispatched := dispatched h @
                  [\<lparr>call_cluster = cl, call_headers = hs, call_body = body,
                    call_trailers = trailers, call_timeout = timeout\<rparr>],
             next_callout_id := next_callout_id h + 1\<rparr>))"

text \<open>The body of the answer to the dispatched call. A call that failed in transport
  or timed out is delivered to the callback without a readable body
  (\<open>call_response_body = None\<close>), or with an empty one.\<close>

definition GetHttpCallResponseBody :: "nat \<Rightarrow> nat \<Rightarrow> host \<Rightarrow> error + string" where
  "GetHttpCallResponseBody start maxSize h =
     (case call_response_body h of
        None \<Rightarrow> Inl ErrorStatusNotFound
      | Some b \<Rightarrow> Inr (take maxSize (drop start b)))"

definition SendHttpResponse :: "nat \<Rightarrow> headers \<Rightarrow> string \<Rightarrow> int \<Rightarrow> host \<Rightarrow> host" where
  "SendHttpResponse st hs body grpc h =
     h\<lparr>local_responses := local_responses h @
          [\<lparr>status_code = st, response_headers = hs, response_body = body,
            grpc_status = grpc\<rparr>]\<rparr>"

definition ResumeHttpRequest :: "host \<Rightarrow> host" where
  "ResumeHttpRequest h = h\<lparr>resume_calls := Suc (resume_calls h)\<rparr>"

definition LogInfof :: "string \<Rightarrow> log_arg list \<Rightarrow> host \<Rightarrow> host" where
  "LogInfof fmt args h = h\<lparr>logs := logs h @ [(LogInfo, fmt, args)]\<rparr>"

definition LogErrorf :: "string \<Rightarrow> log_arg list \<Rightarrow> host \<Rightarrow> host" where
  "LogErrorf fmt args h = h\<lparr>logs := logs h @ [(LogError, fmt, args)]\<rparr>"

section \<open>The functions of Go's strings package that the filters call\<close>

definition HasPrefix :: "string \<Rightarrow> string \<Rightarrow> bool" where
  "HasPrefix s p = (take (length p) s = p)"

definition TrimPrefix :: "string \<Rightarrow> string \<Rightarrow> string" where
  "TrimPrefix s p = (if HasPrefix s p then drop (length p) s else s)"

text \<open>\<^verbatim>\<open>strings.Split\<close> with a separator that is not empty (the filters split on
  \<^verbatim>\<open>"."\<close> and on \<^verbatim>\<open>"asset="\<close>): the pieces between the occurrences of the
  separator, found left to right without overlap. \<open>acc\<close> is the piece being read,
  reversed.\<close>

fun split_from :: "string \<Rightarrow> string \<Rightarrow> string \<Rightarrow> string list" where
  "split_from sep acc [] = [rev acc]"
| "split_from sep acc (c # cs) =
     (if take (length sep) (c # cs) = sep
      then rev acc # split_from sep [] (drop (length sep - 1) cs)
      else split_from sep (c # acc) cs)"

definition Split :: "string \<Rightarrow> string \<Rightarrow> string list" where
  "Split s sep = split_from sep [] s"

text \<open>\<^verbatim>\<open>strings.Index\<close>: where the first occurrence starts, or \<open>-1\<close>.\<close>

fun Index :: "string \<Rightarrow> string \<Rightarrow> int" where
  "Index [] sub = (if sub = [] then 0 else -1)"
| "Index (c # cs) sub =
     (if HasPrefix (c # cs) sub then 0
      else (let r = Index cs sub in if r < 0 then -1 else r + 1))"

section \<open>The server filter (wasm/server-filter/main.go)\<close>

record httpContext =
  contextID :: "32 word"
  calloutID :: "32 word"
  jwtToken :: string
  principalID :: string
  assetID :: string
  requestPath :: string
  requestMethod :: string

record Principal =
  ID :: string

record Query =
  AssetID :: string
  Action :: string

record EvaluationRequest =
  Principal :: Principal
  Queries :: "Query list"

record Decision =
  Decision :: string
  Reason :: string

record EvaluationResponse =
  Decisions :: "Decision list"

text \<open>A value of Go's \<^verbatim>\<open>interface{}\<close> as stored in the claims map: the filter only
  ever stores a string and only ever asks whether a value is one.\<close>

datatype any = AnyString string | AnyOther

definition pdpServiceCluster :: string where
  "pdpServiceCluster = ''sgnl-pdp-service''"

definition pdpServicePath :: string where
  "pdpServicePath = ''/access/v2/evaluations''"

definition sendUnauthorizedResponse :: "string \<Rightarrow> host \<Rightarrow> host" where
  \<open>sendUnauthorizedResponse message h =
     SendHttpResponse 401 [(''content-type'', ''application/json'')]
       (''{"error":"'' @ message @ ''"}'') (-1) h\<close>

definition sendForbiddenResponse :: "string \<Rightarrow> string \<Rightarrow> host \<Rightarrow> host" where
  \<open>sendForbiddenResponse message reason h =
     SendHttpResponse 403 [(''content-type'', ''application/json'')]
       (''{"error":"'' @ message @ ''","pdp_response":{"decision":"Deny","reason":"'' @
          reason @ ''"}}'') (-1) h\<close>

text \<open>\<^verbatim>\<open>extractSubFromPath\<close> and \<^verbatim>\<open>extractAssetFromPath\<close> are methods of the
  context that never read it: they are functions of their other arguments.
  \<^verbatim>\<open>extractSubFromPath\<close> does not read its \<open>path\<close> either.\<close>

definition extractSubFromPath :: "string \<Rightarrow> host \<Rightarrow> string" where
  "extractSubFromPath path h =
     (case GetHttpRequestHeader ''X-Service-ID'' h of
        Inr serviceID \<Rightarrow> if serviceID \<noteq> [] then serviceID else ''service-a''
      | Inl err \<Rightarrow> ''service-a'')"

definition parseJWTClaims :: "httpContext \<Rightarrow> string \<Rightarrow> host \<Rightarrow> error + (string \<rightharpoonup> any)" where
  "parseJWTClaims ctx token h =
     (let parts = Split token ''.'' in
      if length parts \<noteq> 3 then Inl (Err ''invalid JWT format'')
      else Inr [''sub'' \<mapsto> AnyString (extractSubFromPath (requestPath ctx) h)])"

definition extractAssetFromPath :: "string \<Rightarrow> string" where
  "extractAssetFromPath path =
     (let parts = Split path ''asset='' in
      if length parts < 2 then []
      else let asset = parts ! 1; idx = Index asset ''&'' in
           if idx \<noteq> -1 then take (nat idx) asset else asset)"

text \<open>\<^verbatim>\<open>OnHttpRequestHeaders\<close>, branch by branch in the order of the source.
  \<^verbatim>\<open>json.Marshal\<close> belongs to Go's library and is a parameter. The filter fills in
  its context as it goes; the context comes back with the action and the host.\<close>

definition OnHttpRequestHeaders ::
  "(EvaluationRequest \<Rightarrow> error + string) \<Rightarrow> httpContext \<Rightarrow> int \<Rightarrow> bool \<Rightarrow> host
     \<Rightarrow> action \<times> httpContext \<times> host" where
  "OnHttpRequestHeaders json_Marshal ctx0 numHeaders endOfStream h0 =
    (case GetHttpRequestHeader '':path'' h0 of
       Inl err \<Rightarrow> (ActionContinue, ctx0, LogErrorf ''failed to get path: %v'' [ArgError err] h0)
     | Inr path \<Rightarrow>
    let ctx1 = ctx0\<lparr>requestPath := path\<rparr> in
    (case GetHttpRequestHeader '':method'' h0 of
       Inl err \<Rightarrow> (ActionContinue, ctx1, LogErrorf ''failed to get method: %v'' [ArgError err] h0)
     | Inr method \<Rightarrow>
    let ctx2 = ctx1\<lparr>requestMethod := method\<rparr>;
        h1 = LogInfof ''[Server WASM] Intercepted inbound request: %s %s''
               [ArgString method, ArgString path] h0;
        auth = GetHttpRequestHeader ''Authorization'' h1
    in
    if (case auth of Inl err \<Rightarrow> True | Inr authHeader \<Rightarrow> authHeader = []) then
      (ActionPause, ctx2,
       sendUnauthorizedResponse ''Missing Authorization header''
         (LogErrorf ''[Server WASM] Missing Authorization header'' [] h1))
    else
    let authHeader = (case auth of Inr a \<Rightarrow> a | Inl err \<Rightarrow> []) in
    if \<not> HasPrefix authHeader ''Bearer '' then
      (ActionPause, ctx2,
       sendUnauthorizedResponse ''Invalid Authorization header format''
         (LogErrorf ''[Server WASM] Invalid Authorization header format'' [] h1))
    else
    let ctx3 = ctx2\<lparr>jwtToken := TrimPrefix authHeader ''Bearer ''\<rparr>;
        h2 = LogInfof ''[Server WASM] JWT token extracted (length: %d)''
               [ArgInt (int (length (jwtToken ctx3)))] h1
    in
    (case parseJWTClaims ctx3 (jwtToken ctx3) h2 of
       Inl (Err msg) \<Rightarrow>
         (ActionPause, ctx3,
          sendUnauthorizedResponse (''Invalid JWT: '' @ msg)
            (LogErrorf ''[Server WASM] Failed to parse JWT: %v'' [ArgError (Err msg)] h2))
     | Inr claims \<Rightarrow>
    (case (case claims ''sub'' of Some (AnyString s) \<Rightarrow> (s, True) | _ \<Rightarrow> ([], False)) of
       (sub, ok) \<Rightarrow>
    if \<not> ok \<or> sub = [] then
      (ActionPause, ctx3,
       sendUnauthorizedResponse ''JWT missing 'sub' claim''
         (LogErrorf ''[Server WASM] JWT missing 'sub' claim'' [] h2))
    else
    let ctx4 = ctx3\<lparr>principalID := sub\<rparr>;
        ctx5 = ctx4\<lparr>assetID := extractAssetFromPath path\<rparr>;
        ctx6 = (if assetID ctx5 = [] then ctx5\<lparr>assetID := ''default-asset''\<rparr> else ctx5);
        h3 = LogInfof ''[Server WASM] Calling PDP: principal=%s, asset=%s''
               [ArgString (principalID ctx6), ArgString (assetID ctx6)] h2;
        evalRequest = \<lparr>Principal = \<lparr>ID = principalID ctx6\<rparr>,
                       Queries = [\<lparr>AssetID = assetID ctx6, Action = ''call''\<rparr>]\<rparr>
    in
    (case json_Marshal evalRequest of
       Inl err \<Rightarrow>
         (ActionPause, ctx6,
          sendUnauthorizedResponse ''Internal error''
            (LogErrorf ''[Server WASM] Failed to marshal PDP request: %v'' [ArgError err] h3))
     | Inr requestBody \<Rightarrow>
    let hdrs = [('':method'', ''POST''),
                ('':path'', pdpServicePath),
                ('':authority'', ''sgnl-pdp-service:8082''),
                (''content-type'', ''application/json'')]
    in
    (case DispatchHttpCall pdpServiceCluster hdrs requestBody [] 5000 h3 of
       (Inl err, h4) \<Rightarrow>
         (ActionPause, ctx6,
          sendForbiddenResponse ''Policy evaluation failed'' []
            (LogErrorf ''[Server WASM] Failed to dispatch HTTP call to PDP: %v''
               [ArgError err] h4))
     | (Inr cid, h4) \<Rightarrow>
         (ActionPause, ctx6\<lparr>calloutID := cid\<rparr>,
          LogInfof ''[Server WASM] Dispatched HTTP call to PDP (callout ID: %d)''
            [ArgUint32 cid] h4)))))))"

text \<open>\<^verbatim>\<open>OnHttpCallResponse\<close>: the callback the host runs when the answer to the
  dispatched call is there. \<^verbatim>\<open>json.Unmarshal\<close> into an \<^verbatim>\<open>EvaluationResponse\<close> is a
  parameter. The callback reads the context and never writes it. Its three arguments are
  sizes the host has counted, hence natural numbers.\<close>

definition OnHttpCallResponse ::
  "(string \<Rightarrow> error + EvaluationResponse) \<Rightarrow> httpContext \<Rightarrow> nat \<Rightarrow> nat \<Rightarrow> nat \<Rightarrow> host \<Rightarrow> host" where
  "OnHttpCallResponse json_Unmarshal ctx numHeaders bodySize numTrailers h0 =
    (let h1 = LogInfof ''[Server WASM] Received PDP response (body size: %d)''
                [ArgInt (int bodySize)] h0
     in
     case GetHttpCallResponseBody 0 bodySize h1 of
       Inl err \<Rightarrow>
         sendForbiddenResponse ''Policy evaluation failed'' []
           (LogErrorf ''[Server WASM] Failed to get PDP response body: %v'' [ArgError err] h1)
     | Inr responseBody \<Rightarrow>
     (case json_Unmarshal responseBody of
       Inl err \<Rightarrow>
         sendForbiddenResponse ''Policy evaluation failed'' []
           (LogErrorf ''[Server WASM] Failed to parse PDP response: %v'' [ArgError err] h1)
     | Inr evalResp \<Rightarrow>
     (case Decisions evalResp of
       [] \<Rightarrow>
         sendForbiddenResponse ''Policy evaluation failed'' []
           (LogErrorf ''[Server WASM] No decisions in PDP response'' [] h1)
     | decision # rest \<Rightarrow>
     let h2 = LogInfof ''[Server WASM] PDP decision: %s (%s)''
                [ArgString (Decision decision), ArgString (Reason decision)] h1
     in
     if Decision decision \<noteq> ''Allow'' then
       sendForbiddenResponse ''Access denied by policy'' (Reason decision) h2
     else
     let h3 = snd (AddHttpRequestHeader ''X-PDP-Decision'' ''Allow'' h2);
         h4 = snd (AddHttpRequestHeader ''X-PDP-Reason'' (Reason decision) h3);
         h5 = snd (AddHttpRequestHeader ''X-Principal-ID'' (principalID ctx) h4);
         h6 = LogInfof ''[Server WASM] Access granted, resuming request'' [] h5
     in ResumeHttpRequest h6)))"

section \<open>The client filter (the Go source of unnamed/part_005)\<close>

text \<open>The client filter is a program of its own with the same type and method names;
  where a name of the server filter is taken, the client's carries the suffix
  \<open>_client\<close>.\<close>

record httpContext_client =
  contextID_client :: "32 word"
  token :: string

record TokenResponse =
  Token :: string
  ExpiresIn :: "64 word"

definition jwtVendingServiceCluster :: string where
  "jwtVendingServiceCluster = ''jwt-vending-service''"

definition jwtVendingServicePath :: string where
  "jwtVendingServicePath = ''/token/valid''"

text \<open>\<^verbatim>\<open>OnHttpRequestHeaders\<close> of the client. The sixth argument of the dispatch, the
  callback \<^verbatim>\<open>ctx.handleJWTResponse\<close>, tells the host which function to run on the
  answer; the host model does not store it.\<close>

definition OnHttpRequestHeaders_client ::
  "httpContext_client \<Rightarrow> int \<Rightarrow> bool \<Rightarrow> host \<Rightarrow> action \<times> host" where
  \<open>OnHttpRequestHeaders_client ctx numHeaders endOfStream h0 =
    (case GetHttpRequestHeader '':authority'' h0 of
       Inl err \<Rightarrow>
         (ActionContinue, LogErrorf ''failed to get authority header: %v'' [ArgError err] h0)
     | Inr authority \<Rightarrow>
    if authority \<noteq> ''service-b:8083'' \<and> authority \<noteq> ''service-b'' then
      (ActionContinue,
       LogInfof ''skipping JWT injection for non-service-b request: %s''
         [ArgString authority] h0)
    else
    let h1 = LogInfof ''[Client WASM] Intercepted request to %s, fetching JWT token''
               [ArgString authority] h0;
        requestBody = ''{"service_id":"service-a"}'';
        hdrs = [('':method'', ''POST''),
                ('':path'', jwtVendingServicePath),
                ('':authority'', ''jwt-vending-service:8081''),
                (''content-type'', ''application/json'')]
    in
    (case DispatchHttpCall jwtVendingServiceCluster hdrs requestBody [] 5000 h1 of
       (Inl err, h2) \<Rightarrow>
         (ActionContinue,
          LogErrorf ''[Client WASM] Failed to dispatch HTTP call to JWT vending service: %v''
            [ArgError err] h2)
     | (Inr cid, h2) \<Rightarrow>
         (ActionPause,
          LogInfof ''[Client WASM] Dispatched HTTP call to JWT vending service'' [] h2)))\<close>

text \<open>\<^verbatim>\<open>handleJWTResponse\<close>: the callback for the answer of the JWT vending service.
  \<^verbatim>\<open>json.Unmarshal\<close> into a \<^verbatim>\<open>TokenResponse\<close> is a parameter.\<close>

definition handleJWTResponse ::
  "(string \<Rightarrow> error + TokenResponse) \<Rightarrow> httpContext_client \<Rightarrow> nat \<Rightarrow> nat \<Rightarrow> nat \<Rightarrow> host \<Rightarrow> host" where
  "handleJWTResponse json_Unmarshal ctx numHeaders bodySize numTrailers h0 =
    (let h1 = LogInfof ''[Client WASM] Received JWT response (headers: %d, body: %d)''
                [ArgInt (int numHeaders), ArgInt (int bodySize)] h0
     in
     case GetHttpCallResponseBody 0 bodySize h1 of
       Inl err \<Rightarrow>
         ResumeHttpRequest
           (LogErrorf ''[Client WASM] Failed to get response body: %v'' [ArgError err] h1)
     | Inr responseBody \<Rightarrow>
     (case json_Unmarshal responseBody of
       Inl err \<Rightarrow>
         ResumeHttpRequest
           (LogErrorf ''[Client WASM] Failed to parse token response: %v'' [ArgError err] h1)
     | Inr tokenResp \<Rightarrow>
     if Token tokenResp = [] then
       ResumeHttpRequest
         (LogErrorf ''[Client WASM] Empty token received from JWT vending service'' [] h1)
     else
     let h2 = LogInfof ''[Client WASM] Successfully obtained JWT token (length: %d)''
                [ArgInt (int (length (Token tokenResp)))] h1;
         authHeader = ''Bearer '' @ Token tokenResp;
         h3 = (case ReplaceHttpRequestHeader ''Authorization'' authHeader h2 of
                 (Some err, h') \<Rightarrow>
                   LogErrorf ''[Client WASM] Failed to set Authorization header: %v''
                     [ArgError err] h'
               | (None, h') \<Rightarrow>
                   LogInfof ''[Client WASM] Injected JWT token into Authorization header'' [] h')
     in ResumeHttpRequest h3))"

definition OnHttpResponseHeaders ::
  "httpContext_client \<Rightarrow> int \<Rightarrow> bool \<Rightarrow> host \<Rightarrow> action \<times> host" where
  "OnHttpResponseHeaders ctx numHeaders endOfStream h =
    (ActionContinue,
     case GetHttpResponseHeader '':status'' h of
       Inr status \<Rightarrow> LogInfof ''[Client WASM] Response status: %s'' [ArgString status] h
     | Inl err \<Rightarrow> h)"

section \<open>One intercepted request, from the headers to the last callback\<close>

text \<open>
  The host creates one context per intercepted request (\<^verbatim>\<open>NewHttpContext\<close>), hands it
  the request headers once, and later delivers the answer of the dispatched call: it puts
  the answer's body (or none) in place and runs the callback with the sizes. A delivery is
  the body and the three sizes. The functions below run a request through a filter with
  any list of deliveries, so that a statement about them covers a callback that comes
  once, never, or again.
\<close>

type_synonym delivery = "string option \<times> nat \<times> nat \<times> nat"

fun deliver_server ::
  "(string \<Rightarrow> error + EvaluationResponse) \<Rightarrow> httpContext \<Rightarrow> delivery list \<Rightarrow> host \<Rightarrow> host" where
  "deliver_server U ctx [] h = h"
| "deliver_server U ctx ((body, n, b, t) # ds) h =
     deliver_server U ctx ds (OnHttpCallResponse U ctx n b t (h\<lparr>call_response_body := body\<rparr>))"

definition request_server ::
  "(EvaluationRequest \<Rightarrow> error + string) \<Rightarrow> (string \<Rightarrow> error + EvaluationResponse) \<Rightarrow>
   32 word \<Rightarrow> int \<Rightarrow> bool \<Rightarrow> delivery list \<Rightarrow> host \<Rightarrow> host" where
  "request_server M U cid numHeaders endOfStream ds h =
     (case OnHttpRequestHeaders M
             \<lparr>contextID = cid, calloutID = 0, jwtToken = [], principalID = [],
              assetID = [], requestPath = [], requestMethod = []\<rparr>
             numHeaders endOfStream h of
        (a, ctx, h') \<Rightarrow> deliver_server U ctx ds h')"

fun deliver_client ::
  "(string \<Rightarrow> error + TokenResponse) \<Rightarrow> httpContext_client \<Rightarrow> delivery list \<Rightarrow> host \<Rightarrow> host" where
  "deliver_client U ctx [] h = h"
| "deliver_client U ctx ((body, n, b, t) # ds) h =
     deliver_client U ctx ds (handleJWTResponse U ctx n b t (h\<lparr>call_response_body := body\<rparr>))"

definition request_client ::
  "(string \<Rightarrow> error + TokenResponse) \<Rightarrow> 32 word \<Rightarrow> int \<Rightarrow> bool \<Rightarrow> delivery list \<Rightarrow>
   int \<Rightarrow> bool \<Rightarrow> host \<Rightarrow> host" where
  "request_client U cid numHeaders endOfStream ds numHeaders' endOfStream' h =
     (let ctx = \<lparr>contextID_client = cid, token = []\<rparr>;
          h1 = snd (OnHttpRequestHeaders_client ctx numHeaders endOfStream h);
          h2 = deliver_client U ctx ds h1
      in snd (OnHttpResponseHeaders ctx numHeaders' endOfStream' h2))"

section \<open>Reading a synthesized response back\<close>

text \<open>
  The specification speaks of the \<^verbatim>\<open>pdp_response.reason\<close> field of a denial body. The
  definitions of this section follow the specification's words, not the source: they
  read a body the way a JSON reader does. \<open>read_json_string\<close> reads a JSON string
  from just after its opening quote to its closing quote and returns the string's value
  and the text that follows; the escapes of two characters are decoded, a control
  character or any other escape is refused. \<open>pdp_response_reason\<close> reads the envelope
  \<^verbatim>\<open>{"error":S,"pdp_response":{"decision":S,"reason":S}}\<close> and returns the value of
  the last string.
\<close>

definition json_unescape :: "char \<Rightarrow> char option" where
  "json_unescape e =
     (if e = CHR 0x22 then Some (CHR 0x22)
      else if e = CHR 0x5C then Some (CHR 0x5C)
      else if e = CHR ''/'' then Some (CHR ''/'')
      else if e = CHR ''b'' then Some (CHR 0x08)
      else if e = CHR ''f'' then Some (CHR 0x0C)
      else if e = CHR ''n'' then Some (CHR 0x0A)
      else if e = CHR ''r'' then Some (CHR 0x0D)
      else if e = CHR ''t'' then Some (CHR 0x09)
      else None)"

fun read_json_string :: "string \<Rightarrow> (string \<times> string) option" where
  "read_json_string [] = None"
| "read_json_string [c] = (if c = CHR 0x22 then Some ([], []) else None)"
| "read_json_string (c # e # cs) =
     (if c = CHR 0x22 then Some ([], e # cs)
      else if c = CHR 0x5C then
        (case json_unescape e of
           None \<Rightarrow> None
         | Some d \<Rightarrow> map_option (\<lambda>(s, rest). (d # s, rest)) (read_json_string cs))
      else if (of_char c :: nat) < 32 then None
      else map_option (\<lambda>(s, rest). (c # s, rest)) (read_json_string (e # cs)))"

definition expect :: "string \<Rightarrow> string \<Rightarrow> string option" where
  "expect lit s = (if HasPrefix s lit then Some (drop (length lit) s) else None)"

definition pdp_response_reason :: "string \<Rightarrow> string option" where
  \<open>pdp_response_reason body =
     (case expect ''{"error":"'' body of None \<Rightarrow> None | Some r1 \<Rightarrow>
      case read_json_string r1 of None \<Rightarrow> None | Some (err, r2) \<Rightarrow>
      case expect '',"pdp_response":{"decision":"'' r2 of None \<Rightarrow> None | Some r3 \<Rightarrow>
      case read_json_string r3 of None \<Rightarrow> None | Some (decision, r4) \<Rightarrow>
      case expect '',"reason":"'' r4 of None \<Rightarrow> None | Some r5 \<Rightarrow>
      case read_json_string r5 of None \<Rightarrow> None | Some (reason, r6) \<Rightarrow>
      if r6 = ''}}'' then Some reason else None)\<close>

text \<open>A character that stands for itself inside a JSON string.\<close>

definition json_plain :: "char \<Rightarrow> bool" where
  "json_plain c = (c \<noteq> CHR 0x22 \<and> c \<noteq> CHR 0x5C \<and> 32 \<le> (of_char c :: nat))"

text \<open>The alphabet of base64url (with the padding character): the specification's
  token has three segments, each written in it.\<close>

definition base64url_char :: "char \<Rightarrow> bool" where
  "base64url_char c =
     (c \<in> set ''ABCDEFGHIJKLMNOPQRSTUVWXYZabcdefghijklmnopqrstuvwxyz0123456789-_='')"

section \<open>Example inputs\<close>

text \<open>
  Concrete hosts, contexts and library functions at which the theorems below are
  instantiated. \<open>example_Marshal\<close> writes an evaluation request as \<^verbatim>\<open>json.Marshal\<close>
  does when no string needs escaping; \<open>example_Unmarshal\<close> and
  \<open>example_Unmarshal_token\<close> read the bodies listed in them as \<^verbatim>\<open>json.Unmarshal\<close>
  does and refuse every other body.
\<close>

definition example_host :: host where
  "example_host =
     \<lparr>request_headers = [], upstream_response_headers = [], header_write_error = None,
      dispatch_error = None, next_callout_id = 1, call_response_body = None,
      dispatched = [], local_responses = [], resume_calls = 0, logs = []\<rparr>"

definition example_ctx :: httpContext where
  "example_ctx =
     \<lparr>contextID = 2, calloutID = 1, jwtToken = ''aaa.bbb.ccc'', principalID = ''service-a'',
      assetID = ''asset-x'', requestPath = ''/process?asset=asset-x'', requestMethod = ''GET''\<rparr>"

definition new_ctx :: httpContext where
  "new_ctx =
     \<lparr>contextID = 2, calloutID = 0, jwtToken = [], principalID = [],
      assetID = [], requestPath = [], requestMethod = []\<rparr>"

definition example_ctx_client :: httpContext_client where
  "example_ctx_client = \<lparr>contextID_client = 2, token = []\<rparr>"

fun join_commas :: "string list \<Rightarrow> string" where
  "join_commas [] = []"
| "join_commas [x] = x"
| "join_commas (x # y # ys) = x @ '','' @ join_commas (y # ys)"

definition example_Marshal :: "EvaluationRequest \<Rightarrow> error + string" where
  \<open>example_Marshal r =
     Inr (''{"principal":{"id":"'' @ ID (Principal r) @ ''"},"queries":['' @
          join_commas
            (map (\<lambda>q. ''{"assetId":"'' @ AssetID q @ ''","action":"'' @ Action q @ ''"}'')
               (Queries r)) @
          '']}'')\<close>

definition example_allow_body :: string where
  \<open>example_allow_body = ''{"decisions":[{"decision":"Allow","reason":"ok"}]}''\<close>

definition example_deny_body :: string where
  \<open>example_deny_body = ''{"decisions":[{"decision":"Deny","reason":"no"}]}''\<close>

definition example_quote_body :: string where
  \<open>example_quote_body =
     ''{"decisions":[{"decision":"Deny","reason":"no access to y''
       @ [CHR 0x5C, CHR 0x22] @ ''"}]}''\<close>

definition example_empty_body :: string where
  \<open>example_empty_body = ''{"decisions":[]}''\<close>

definition example_Unmarshal :: "string \<Rightarrow> error + EvaluationResponse" where
  \<open>example_Unmarshal b =
     (if b = example_allow_body
      then Inr \<lparr>Decisions = [\<lparr>Decision = ''Allow'', Reason = ''ok''\<rparr>]\<rparr>
      else if b = example_deny_body
      then Inr \<lparr>Decisions = [\<lparr>Decision = ''Deny'', Reason = ''no''\<rparr>]\<rparr>
      else if b = example_quote_body
      then Inr \<lparr>Decisions = [\<lparr>Decision = ''Deny'', Reason = ''no access to y"''\<rparr>]\<rparr>
      else if b = example_empty_body
      then Inr \<lparr>Decisions = []\<rparr>
      else Inl (Err ''invalid character''))\<close>

definition example_token_body :: string where
  \<open>example_token_body = ''{"token":"aaa.bbb.ccc","expires_in":3600}''\<close>

definition example_no_token_body :: string where
  \<open>example_no_token_body = ''{"token":"","expires_in":0}''\<close>

definition example_Unmarshal_token :: "string \<Rightarrow> error + TokenResponse" where
  \<open>example_Unmarshal_token b =
     (if b = example_token_body
      then Inr \<lparr>Token = ''aaa.bbb.ccc'', ExpiresIn = 3600\<rparr>
      else if b = example_no_token_body
      then Inr \<lparr>Token = [], ExpiresIn = 0\<rparr>
      else Inl (Err ''invalid character''))\<close>

definition example_request :: "string \<Rightarrow> host" where
  "example_request auth =
     example_host\<lparr>request_headers :=
       [('':path'', ''/process?asset=asset-x''), ('':method'', ''GET''),
        (''Authorization'', auth)]\<rparr>"

section \<open>Facts shared by the proofs\<close>

lemmas host_ops = GetHttpRequestHeader_def GetHttpResponseHeader_def AddHttpRequestHeader_def
  ReplaceHttpRequestHeader_def DispatchHttpCall_def GetHttpCallResponseBody_def
  SendHttpResponse_def ResumeHttpRequest_def LogInfof_def LogErrorf_def

lemmas example_bodies = example_allow_body_def example_deny_body_def example_quote_body_def
  example_empty_body_def example_token_body_def example_no_token_body_def

lemma map_of_replaced:
  "map_of (filter (\<lambda>kv. fst kv \<noteq> k) xs @ [(k, v)]) k = Some v"
  by (induction xs) auto

subsection \<open>The client's handlers, one at a time\<close>

lemma handleJWTResponse_other_headers:
  "filter (\<lambda>kv. fst kv \<noteq> ''Authorization'') (request_headers (handleJWTResponse U ctx n b t h))
     = filter (\<lambda>kv. fst kv \<noteq> ''Authorization'') (request_headers h)"
  by (auto simp: handleJWTResponse_def host_ops Let_def split: option.splits sum.splits)

lemma handleJWTResponse_dispatched:
  "dispatched (handleJWTResponse U ctx n b t h) = dispatched h"
  by (auto simp: handleJWTResponse_def host_ops Let_def split: option.splits sum.splits)

lemma handleJWTResponse_token:
  assumes "call_response_body h = Some body" and "U (take bodySize body) = Inr tokenResp"
      and "Token tokenResp \<noteq> []" and "header_write_error h = None"
  shows "request_headers (handleJWTResponse U ctx n bodySize t h)
         = filter (\<lambda>kv. fst kv \<noteq> ''Authorization'') (request_headers h)
             @ [(''Authorization'', ''Bearer '' @ Token tokenResp)]"
  using assms by (simp add: handleJWTResponse_def host_ops Let_def)

lemma OnHttpRequestHeaders_client_keeps:
  "request_headers (snd (OnHttpRequestHeaders_client ctx n e h)) = request_headers h"
  "header_write_error (snd (OnHttpRequestHeaders_client ctx n e h)) = header_write_error h"
  by (auto simp: OnHttpRequestHeaders_client_def host_ops Let_def split: option.splits)

lemma OnHttpRequestHeaders_client_dispatched:
  "dispatched (snd (OnHttpRequestHeaders_client ctx n e h)) = dispatched h
   \<or> (\<exists>c. dispatched (snd (OnHttpRequestHeaders_client ctx n e h)) = dispatched h @ [c])"
  by (auto simp: OnHttpRequestHeaders_client_def host_ops Let_def split: option.splits)

lemma OnHttpRequestHeaders_client_target:
  assumes "map_of (request_headers h) '':authority'' = Some ''service-b:8083''
           \<or> map_of (request_headers h) '':authority'' = Some ''service-b''"
      and "dispatch_error h = None"
  shows \<open>fst (OnHttpRequestHeaders_client ctx n e h) = ActionPause \<and>
         dispatched (snd (OnHttpRequestHeaders_client ctx n e h)) = dispatched h @
           [\<lparr>call_cluster = ''jwt-vending-service'',
             call_headers = [('':method'', ''POST''), ('':path'', ''/token/valid''),
                             ('':authority'', ''jwt-vending-service:8081''),
                             (''content-type'', ''application/json'')],
             call_body = ''{"service_id":"service-a"}'', call_trailers = [],
             call_timeout = 5000\<rparr>]\<close>
  using assms
  by (auto simp: OnHttpRequestHeaders_client_def host_ops Let_def
        jwtVendingServiceCluster_def jwtVendingServicePath_def)

lemma OnHttpResponseHeaders_keeps:
  "request_headers (snd (OnHttpResponseHeaders ctx n e h)) = request_headers h"
  "dispatched (snd (OnHttpResponseHeaders ctx n e h)) = dispatched h"
  by (auto simp: OnHttpResponseHeaders_def host_ops split: option.splits)

lemma deliver_client_other_headers:
  "filter (\<lambda>kv. fst kv \<noteq> ''Authorization'') (request_headers (deliver_client U ctx ds h))
     = filter (\<lambda>kv. fst kv \<noteq> ''Authorization'') (request_headers h)"
  by (induction U ctx ds h rule: deliver_client.induct)
     (simp_all add: handleJWTResponse_other_headers)

lemma deliver_client_dispatched:
  "dispatched (deliver_client U ctx ds h) = dispatched h"
  by (induction U ctx ds h rule: deliver_client.induct)
     (simp_all add: handleJWTResponse_dispatched)

subsection \<open>The server's callback\<close>

lemmas callback_defs = OnHttpCallResponse_def sendForbiddenResponse_def

lemma OnHttpCallResponse_dispatched:
  "dispatched (OnHttpCallResponse U ctx n b t h) = dispatched h"
  by (auto simp: callback_defs host_ops Let_def split: option.splits sum.splits list.splits)

lemma deliver_server_dispatched:
  "dispatched (deliver_server U ctx ds h) = dispatched h"
  by (induction U ctx ds h rule: deliver_server.induct)
     (simp_all add: OnHttpCallResponse_dispatched)

lemma OnHttpCallResponse_failure:
  assumes "case GetHttpCallResponseBody 0 bodySize h of
             Inl err \<Rightarrow> True
           | Inr body \<Rightarrow> (case U body of Inl err \<Rightarrow> True | Inr evalResp \<Rightarrow> Decisions evalResp = [])"
  shows \<open>local_responses (OnHttpCallResponse U ctx n bodySize t h)
         = local_responses h @
           [\<lparr>status_code = 403, response_headers = [(''content-type'', ''application/json'')],
             response_body =
               ''{"error":"Policy evaluation failed","pdp_response":{"decision":"Deny","reason":""}}'',
             grpc_status = -1\<rparr>]
       \<and> resume_calls (OnHttpCallResponse U ctx n bodySize t h) = resume_calls h
       \<and> request_headers (OnHttpCallResponse U ctx n bodySize t h) = request_headers h\<close>
  using assms
  by (auto simp: callback_defs host_ops Let_def split: option.splits sum.splits list.splits)

lemma OnHttpCallResponse_deny:
  assumes "GetHttpCallResponseBody 0 bodySize h = Inr body" and "U body = Inr evalResp"
      and "Decisions evalResp = decision # rest" and "Decision decision \<noteq> ''Allow''"
  shows \<open>local_responses (OnHttpCallResponse U ctx n bodySize t h)
         = local_responses h @
           [\<lparr>status_code = 403, response_headers = [(''content-type'', ''application/json'')],
             response_body =
               ''{"error":"Access denied by policy","pdp_response":{"decision":"Deny","reason":"''
                 @ Reason decision @ ''"}}'',
             grpc_status = -1\<rparr>]
       \<and> resume_calls (OnHttpCallResponse U ctx n bodySize t h) = resume_calls h
       \<and> request_headers (OnHttpCallResponse U ctx n bodySize t h) = request_headers h\<close>
  using assms by (simp add: callback_defs host_ops Let_def)

subsection \<open>Reading back a body whose strings need no escaping\<close>

lemma read_json_string_plain:
  "list_all json_plain s \<Longrightarrow> read_json_string (s @ CHR 0x22 # rest) = Some (s, rest)"
proof (induction s)
  case Nil
  then show ?case by (cases rest) simp_all
next
  case (Cons c s)
  then show ?case
    by (cases "s @ CHR 0x22 # rest") (auto simp: json_plain_def)
qed

lemma pdp_response_reason_plain:
  assumes "list_all json_plain message" and "list_all json_plain reason"
  shows \<open>pdp_response_reason
           (''{"error":"'' @ message @ ''","pdp_response":{"decision":"Deny","reason":"''
              @ reason @ ''"}}'') = Some reason\<close>
proof -
  have 1: \<open>read_json_string
             (message @ CHR 0x22 # '',"pdp_response":{"decision":"Deny","reason":"'' @ reason @ ''"}}'')
           = Some (message, '',"pdp_response":{"decision":"Deny","reason":"'' @ reason @ ''"}}'')\<close>
    using assms(1) by (rule read_json_string_plain)
  have 2: \<open>read_json_string (''Deny'' @ CHR 0x22 # '',"reason":"'' @ reason @ ''"}}'')
           = Some (''Deny'', '',"reason":"'' @ reason @ ''"}}'')\<close>
    by (rule read_json_string_plain) (simp add: json_plain_def)
  have 3: \<open>read_json_string (reason @ CHR 0x22 # ''}}'') = Some (reason, ''}}'')\<close>
    using assms(2) by (rule read_json_string_plain)
  show ?thesis
    using 1 2 3 by (simp add: pdp_response_reason_def expect_def HasPrefix_def)
qed

text \<open>When the decision is not \<open>Allow\<close> and neither quote, backslash nor control
  character occurs in the reason, the reason is read back from the body as it was.\<close>

lemma deny_reason_read_back:
  assumes "GetHttpCallResponseBody 0 bodySize h = Inr body" and "U body = Inr evalResp"
      and "Decisions evalResp = decision # rest" and "Decision decision \<noteq> ''Allow''"
      and "list_all json_plain (Reason decision)"
  shows "pdp_response_reason
           (response_body (last (local_responses (OnHttpCallResponse U ctx n bodySize t h))))
         = Some (Reason decision)"
proof -
  have m: "list_all json_plain ''Access denied by policy''"
    by (simp add: json_plain_def)
  have r: \<open>pdp_response_reason
             (''{"error":"'' @ ''Access denied by policy'' @
              ''","pdp_response":{"decision":"Deny","reason":"'' @ Reason decision @ ''"}}'')
           = Some (Reason decision)\<close>
    using m assms(5) by (rule pdp_response_reason_plain)
  have b: \<open>response_body (last (local_responses (OnHttpCallResponse U ctx n bodySize t h)))
           = ''{"error":"'' @ ''Access denied by policy'' @
             ''","pdp_response":{"decision":"Deny","reason":"'' @ Reason decision @ ''"}}''\<close>
    using OnHttpCallResponse_deny [of bodySize h body U evalResp decision rest ctx n t]
      assms(1-4)
    by simp
  show ?thesis
    unfolding b by (rule r)
qed

subsection \<open>The server's header handler, one exit at a time\<close>

text \<open>\<^verbatim>\<open>OnHttpRequestHeaders\<close> leaves through one of nine returns. Each lemma gives
  the result of one of them from what the request headers hold; the last covers the
  three returns that come after the token has been accepted.\<close>

lemma HasPrefix_append: "HasPrefix a p \<Longrightarrow> a = p @ drop (length p) a"
  by (metis HasPrefix_def append_take_drop_id)

lemma headers_no_path:
  assumes "map_of (request_headers h) '':path'' = None"
  shows "OnHttpRequestHeaders M ctx n e h =
           (ActionContinue, ctx, LogErrorf ''failed to get path: %v'' [ArgError ErrorStatusNotFound] h)"
  using assms by (simp add: OnHttpRequestHeaders_def GetHttpRequestHeader_def)

lemma headers_no_method:
  assumes "map_of (request_headers h) '':path'' = Some path"
      and "map_of (request_headers h) '':method'' = None"
  shows "OnHttpRequestHeaders M ctx n e h =
           (ActionContinue, ctx\<lparr>requestPath := path\<rparr>,
            LogErrorf ''failed to get method: %v'' [ArgError ErrorStatusNotFound] h)"
  using assms by (simp add: OnHttpRequestHeaders_def GetHttpRequestHeader_def)

lemma headers_no_auth:
  assumes "map_of (request_headers h) '':path'' = Some path"
      and "map_of (request_headers h) '':method'' = Some method"
      and "map_of (request_headers h) ''Authorization'' = None
           \<or> map_of (request_headers h) ''Authorization'' = Some []"
  shows "OnHttpRequestHeaders M ctx n e h =
           (ActionPause, ctx\<lparr>requestPath := path, requestMethod := method\<rparr>,
            sendUnauthorizedResponse ''Missing Authorization header''
              (LogErrorf ''[Server WASM] Missing Authorization header'' []
                 (LogInfof ''[Server WASM] Intercepted inbound request: %s %s''
                    [ArgString method, ArgString path] h)))"
  using assms
  by (auto simp add: OnHttpRequestHeaders_def GetHttpRequestHeader_def LogInfof_def Let_def)

lemma headers_not_bearer:
  assumes "map_of (request_headers h) '':path'' = Some path"
      and "map_of (request_headers h) '':method'' = Some method"
      and "map_of (request_headers h) ''Authorization'' = Some a"
      and "a \<noteq> []" and "\<not> HasPrefix a ''Bearer ''"
  shows "OnHttpRequestHeaders M ctx n e h =
           (ActionPause, ctx\<lparr>requestPath := path, requestMethod := method\<rparr>,
            sendUnauthorizedResponse ''Invalid Authorization header format''
              (LogErrorf ''[Server WASM] Invalid Authorization header format'' []
                 (LogInfof ''[Server WASM] Intercepted inbound request: %s %s''
                    [ArgString method, ArgString path] h)))"
  using assms
  by (simp add: OnHttpRequestHeaders_def GetHttpRequestHeader_def LogInfof_def Let_def)

lemma headers_bad_token:
  assumes "map_of (request_headers h) '':path'' = Some path"
      and "map_of (request_headers h) '':method'' = Some method"
      and "map_of (request_headers h) ''Authorization'' = Some (''Bearer '' @ tok)"
      and "length (Split tok ''.'') \<noteq> 3"
  shows "OnHttpRequestHeaders M ctx n e h =
           (ActionPause, ctx\<lparr>requestPath := path, requestMethod := method, jwtToken := tok\<rparr>,
            sendUnauthorizedResponse ''Invalid JWT: invalid JWT format''
              (LogErrorf ''[Server WASM] Failed to parse JWT: %v'' [ArgError (Err ''invalid JWT format'')]
                (LogInfof ''[Server WASM] JWT token extracted (length: %d)'' [ArgInt (int (length tok))]
                 (LogInfof ''[Server WASM] Intercepted inbound request: %s %s''
                    [ArgString method, ArgString path] h))))"
  using assms
  by (simp add: OnHttpRequestHeaders_def GetHttpRequestHeader_def LogInfof_def Let_def
        HasPrefix_def TrimPrefix_def parseJWTClaims_def)



lemma headers_good_token:
  assumes "map_of (request_headers h) '':path'' = Some path"
      and "map_of (request_headers h) '':method'' = Some method"
      and "map_of (request_headers h) ''Authorization'' = Some (''Bearer '' @ tok)"
      and "length (Split tok ''.'') = 3"
      and sub: "sub = (case map_of (request_headers h) ''X-Service-ID'' of
                         None \<Rightarrow> ''service-a''
                       | Some s \<Rightarrow> if s = [] then ''service-a'' else s)"
      and asset: "asset = (if extractAssetFromPath path = [] then ''default-asset''
                           else extractAssetFromPath path)"
      and ctx': "ctx' = ctx\<lparr>requestPath := path, requestMethod := method, jwtToken := tok,
                            principalID := sub, assetID := asset\<rparr>"
      and h3: "h3 = LogInfof ''[Server WASM] Calling PDP: principal=%s, asset=%s''
                      [ArgString sub, ArgString asset]
                   (LogInfof ''[Server WASM] JWT token extracted (length: %d)''
                      [ArgInt (int (length tok))]
                   (LogInfof ''[Server WASM] Intercepted inbound request: %s %s''
                      [ArgString method, ArgString path] h))"
  shows "OnHttpRequestHeaders M ctx n e h =
     (case M \<lparr>Principal = \<lparr>ID = sub\<rparr>, Queries = [\<lparr>AssetID = asset, Action = ''call''\<rparr>]\<rparr> of
        Inl err \<Rightarrow>
          (ActionPause, ctx',
           sendUnauthorizedResponse ''Internal error''
             (LogErrorf ''[Server WASM] Failed to marshal PDP request: %v'' [ArgError err] h3))
      | Inr requestBody \<Rightarrow>
          (case dispatch_error h of
             Some err \<Rightarrow>
               (ActionPause, ctx',
                sendForbiddenResponse ''Policy evaluation failed'' []
                  (LogErrorf ''[Server WASM] Failed to dispatch HTTP call to PDP: %v''
                     [ArgError err] h3))
           | None \<Rightarrow>
               (ActionPause, ctx'\<lparr>calloutID := next_callout_id h\<rparr>,
                LogInfof ''[Server WASM] Dispatched HTTP call to PDP (callout ID: %d)''
                  [ArgUint32 (next_callout_id h)]
                  (h3\<lparr>dispatched := dispatched h @
                         [\<lparr>call_cluster = ''sgnl-pdp-service'',
                           call_headers = [('':method'', ''POST''),
                                           ('':path'', ''/access/v2/evaluations''),
                                           ('':authority'', ''sgnl-pdp-service:8082''),
                                           (''content-type'', ''application/json'')],
                           call_body = requestBody, call_trailers = [], call_timeout = 5000\<rparr>],
                       next_callout_id := next_callout_id h + 1\<rparr>))))"
proof -
  have sub_ne: "sub \<noteq> []"
    by (simp add: sub split: option.split)
  have parse: "parseJWTClaims c tok h' = Inr [''sub'' \<mapsto> AnyString sub]"
    if "request_headers h' = request_headers h" for c h'
    using assms(4) that
    by (simp add: parseJWTClaims_def sub extractSubFromPath_def GetHttpRequestHeader_def
          split: option.split)
  show ?thesis
    using assms(1-3) sub_ne
    by (simp add: OnHttpRequestHeaders_def GetHttpRequestHeader_def HasPrefix_def TrimPrefix_def
          parse Let_def asset ctx' h3 host_ops pdpServiceCluster_def pdpServicePath_def
          split: sum.split option.split)
qed

lemmas response_defs = sendUnauthorizedResponse_def sendForbiddenResponse_def

lemma OnHttpRequestHeaders_dispatched:
  "dispatched (snd (snd (OnHttpRequestHeaders M ctx n e h))) = dispatched h
   \<or> (\<exists>c. dispatched (snd (snd (OnHttpRequestHeaders M ctx n e h))) = dispatched h @ [c])"
proof (cases "map_of (request_headers h) '':path''")
  case None
  then show ?thesis by (simp add: headers_no_path host_ops)
next
  case p: (Some path)
  show ?thesis
  proof (cases "map_of (request_headers h) '':method''")
    case None
    with p show ?thesis by (simp add: headers_no_method host_ops)
  next
    case m: (Some meth)
    show ?thesis
    proof (cases "map_of (request_headers h) ''Authorization'' = None
                  \<or> map_of (request_headers h) ''Authorization'' = Some []")
      case True
      with p m show ?thesis by (simp add: headers_no_auth host_ops response_defs)
    next
      case False
      then obtain a where a: "map_of (request_headers h) ''Authorization'' = Some a" "a \<noteq> []"
        by auto
      show ?thesis
      proof (cases "HasPrefix a ''Bearer ''")
        case False
        with p m a show ?thesis by (simp add: headers_not_bearer host_ops response_defs)
      next
        case True
        then obtain tok where tok: "a = ''Bearer '' @ tok"
          using HasPrefix_append by blast
        show ?thesis
        proof (cases "length (Split tok ''.'') = 3")
          case False
          with p m a tok show ?thesis by (simp add: headers_bad_token host_ops response_defs)
        next
          case True
          define sub where "sub = (case map_of (request_headers h) ''X-Service-ID'' of
                                     None \<Rightarrow> ''service-a''
                                   | Some s \<Rightarrow> if s = [] then ''service-a'' else s)"
          define asset where "asset = (if extractAssetFromPath path = [] then ''default-asset''
                                       else extractAssetFromPath path)"
          have b: "map_of (request_headers h) ''Authorization'' = Some (''Bearer '' @ tok)"
            using a(1) tok by simp
          note eq = headers_good_token [OF p m b True sub_def asset_def refl refl, of M ctx n e]
          show ?thesis
            by (simp add: eq host_ops response_defs split: sum.split option.split)
        qed
      qed
    qed
  qed
qed

subsection \<open>After the token has been accepted\<close>

lemma not_isl_Inr: "\<not> isl x \<Longrightarrow> x = Inr (projr x)"
  by (cases x) simp_all

lemma headers_good_token_principal:
  assumes "map_of (request_headers h) '':path'' = Some path"
      and "map_of (request_headers h) '':method'' = Some meth"
      and "map_of (request_headers h) ''Authorization'' = Some (''Bearer '' @ tok)"
      and "length (Split tok ''.'') = 3"
  shows "principalID (fst (snd (OnHttpRequestHeaders M ctx n e h)))
         = (case map_of (request_headers h) ''X-Service-ID'' of
              None \<Rightarrow> ''service-a''
            | Some s \<Rightarrow> if s = [] then ''service-a'' else s)"
proof -
  define sub where "sub = (case map_of (request_headers h) ''X-Service-ID'' of
                             None \<Rightarrow> ''service-a''
                           | Some s \<Rightarrow> if s = [] then ''service-a'' else s)"
  define asset where "asset = (if extractAssetFromPath path = [] then ''default-asset''
                               else extractAssetFromPath path)"
  note eq = headers_good_token [OF assms sub_def asset_def refl refl, of M ctx n e]
  have "principalID (fst (snd (OnHttpRequestHeaders M ctx n e h))) = sub"
    by (simp add: eq split: sum.split option.split)
  then show ?thesis
    by (simp add: sub_def)
qed

lemma headers_good_token_dispatch:
  assumes "map_of (request_headers h) '':path'' = Some path"
      and "map_of (request_headers h) '':method'' = Some meth"
      and "map_of (request_headers h) ''Authorization'' = Some (''Bearer '' @ tok)"
      and "length (Split tok ''.'') = 3"
      and "\<And>r. \<not> isl (M r)"
      and "dispatch_error h = None"
  shows "fst (OnHttpRequestHeaders M ctx n e h) = ActionPause
       \<and> local_responses (snd (snd (OnHttpRequestHeaders M ctx n e h))) = local_responses h
       \<and> resume_calls (snd (snd (OnHttpRequestHeaders M ctx n e h))) = resume_calls h
       \<and> calloutID (fst (snd (OnHttpRequestHeaders M ctx n e h))) = next_callout_id h
       \<and> dispatched (snd (snd (OnHttpRequestHeaders M ctx n e h)))
         = dispatched h @
           [\<lparr>call_cluster = ''sgnl-pdp-service'',
             call_headers = [('':method'', ''POST''), ('':path'', ''/access/v2/evaluations''),
                             ('':authority'', ''sgnl-pdp-service:8082''),
                             (''content-type'', ''application/json'')],
             call_body =
               projr (M \<lparr>Principal =
                           \<lparr>ID = (case map_of (request_headers h) ''X-Service-ID'' of
                                    None \<Rightarrow> ''service-a''
                                  | Some s \<Rightarrow> if s = [] then ''service-a'' else s)\<rparr>,
                         Queries =
                           [\<lparr>AssetID = (if extractAssetFromPath path = [] then ''default-asset''
                                         else extractAssetFromPath path),
                             Action = ''call''\<rparr>]\<rparr>),
             call_trailers = [], call_timeout = 5000\<rparr>]"
proof -
  define sub where "sub = (case map_of (request_headers h) ''X-Service-ID'' of
                             None \<Rightarrow> ''service-a''
                           | Some s \<Rightarrow> if s = [] then ''service-a'' else s)"
  define asset where "asset = (if extractAssetFromPath path = [] then ''default-asset''
                               else extractAssetFromPath path)"
  define req where
    "req = \<lparr>Principal = \<lparr>ID = sub\<rparr>, Queries = [\<lparr>AssetID = asset, Action = ''call''\<rparr>]\<rparr>"
  note eq = headers_good_token [OF assms(1-4) sub_def asset_def refl refl, of M ctx n e,
      folded req_def]
  obtain body where r: "M req = Inr body" and body: "body = projr (M req)"
    using not_isl_Inr [OF assms(5) [of req]] by simp
  have "fst (OnHttpRequestHeaders M ctx n e h) = ActionPause
       \<and> local_responses (snd (snd (OnHttpRequestHeaders M ctx n e h))) = local_responses h
       \<and> resume_calls (snd (snd (OnHttpRequestHeaders M ctx n e h))) = resume_calls h
       \<and> calloutID (fst (snd (OnHttpRequestHeaders M ctx n e h))) = next_callout_id h
       \<and> dispatched (snd (snd (OnHttpRequestHeaders M ctx n e h)))
         = dispatched h @
           [\<lparr>call_cluster = ''sgnl-pdp-service'',
             call_headers = [('':method'', ''POST''), ('':path'', ''/access/v2/evaluations''),
                             ('':authority'', ''sgnl-pdp-service:8082''),
                             (''content-type'', ''application/json'')],
             call_body = projr (M req), call_trailers = [], call_timeout = 5000\<rparr>]"
    unfolding eq by (simp add: r body [symmetric] assms(6) host_ops)
  then show ?thesis
    by (simp add: req_def sub_def asset_def)
qed

lemma headers_dispatch_failure:
  assumes "map_of (request_headers h) '':path'' = Some path"
      and "map_of (request_headers h) '':method'' = Some meth"
      and "map_of (request_headers h) ''Authorization'' = Some (''Bearer '' @ tok)"
      and "length (Split tok ''.'') = 3"
      and "\<And>r. \<not> isl (M r)"
      and "dispatch_error h = Some err"
  shows \<open>fst (OnHttpRequestHeaders M ctx n e h) = ActionPause
       \<and> local_responses (snd (snd (OnHttpRequestHeaders M ctx n e h)))
         = local_responses h @
           [\<lparr>status_code = 403, response_headers = [(''content-type'', ''application/json'')],
             response_body =
               ''{"error":"Policy evaluation failed","pdp_response":{"decision":"Deny","reason":""}}'',
             grpc_status = -1\<rparr>]
       \<and> dispatched (snd (snd (OnHttpRequestHeaders M ctx n e h))) = dispatched h
       \<and> resume_calls (snd (snd (OnHttpRequestHeaders M ctx n e h))) = resume_calls h
       \<and> request_headers (snd (snd (OnHttpRequestHeaders M ctx n e h))) = request_headers h\<close>
proof -
  define sub where "sub = (case map_of (request_headers h) ''X-Service-ID'' of
                             None \<Rightarrow> ''service-a''
                           | Some s \<Rightarrow> if s = [] then ''service-a'' else s)"
  define asset where "asset = (if extractAssetFromPath path = [] then ''default-asset''
                               else extractAssetFromPath path)"
  define req where
    "req = \<lparr>Principal = \<lparr>ID = sub\<rparr>, Queries = [\<lparr>AssetID = asset, Action = ''call''\<rparr>]\<rparr>"
  note eq = headers_good_token [OF assms(1-4) sub_def asset_def refl refl, of M ctx n e,
      folded req_def]
  obtain body where r: "M req = Inr body"
    using not_isl_Inr [OF assms(5) [of req]] by blast
  show ?thesis
    unfolding eq by (simp add: r assms(6) host_ops response_defs)
qed

lemma request_server_dispatched:
  "dispatched (request_server M U cid n e ds h)
   = dispatched (snd (snd (OnHttpRequestHeaders M
       \<lparr>contextID = cid, calloutID = 0, jwtToken = [], principalID = [],
        assetID = [], requestPath = [], requestMethod = []\<rparr> n e h)))"
  by (simp add: request_server_def deliver_server_dispatched split: prod.split)

subsection \<open>The example request\<close>

lemma Split_example:
  "Split ''aaa.bbb.ccc'' ''.'' = [''aaa'', ''bbb'', ''ccc'']"
  "Split ''aaa.!!!.ccc'' ''.'' = [''aaa'', ''!!!'', ''ccc'']"
  "Split ''opaque'' ''.'' = [''opaque'']"
  by (simp_all add: Split_def)

lemma extractAssetFromPath_example:
  "extractAssetFromPath ''/process?asset=asset-x'' = ''asset-x''"
  by (simp add: extractAssetFromPath_def Split_def HasPrefix_def Let_def)

lemma example_request_headers:
  "map_of (request_headers (example_request auth)) '':path'' = Some ''/process?asset=asset-x''"
  "map_of (request_headers (example_request auth)) '':method'' = Some ''GET''"
  "map_of (request_headers (example_request auth)) ''Authorization'' = Some auth"
  "map_of (request_headers (example_request auth)) ''X-Service-ID'' = None"
  "dispatch_error (example_request auth) = None"
  "dispatched (example_request auth) = []"
  "local_responses (example_request auth) = []"
  "resume_calls (example_request auth) = 0"
  "next_callout_id (example_request auth) = 1"
  by (simp_all add: example_request_def example_host_def)

lemma example_Marshal_total: "\<not> isl (example_Marshal r)"
  by (simp add: example_Marshal_def)

section \<open>The egress interceptor (client filter)\<close>

text \<open>
  Claim C8. A request whose \<^verbatim>\<open>:authority\<close> is neither \<^verbatim>\<open>service-b:8083\<close> nor
  \<^verbatim>\<open>service-b\<close> (or that has none) is let through at once: the filter answers
  \<open>ActionContinue\<close>, and the host it leaves behind differs from the one it found in
  the log only. No call is dispatched, no header written, no response sent, no resume
  requested.
\<close>

theorem egress_pass_through:
  assumes "map_of (request_headers h) '':authority'' \<noteq> Some ''service-b:8083''"
      and "map_of (request_headers h) '':authority'' \<noteq> Some ''service-b''"
  shows "fst (OnHttpRequestHeaders_client ctx numHeaders endOfStream h) = ActionContinue
       \<and> snd (OnHttpRequestHeaders_client ctx numHeaders endOfStream h)
           = h\<lparr>logs := logs (snd (OnHttpRequestHeaders_client ctx numHeaders endOfStream h))\<rparr>"
  using assms
  by (auto simp: OnHttpRequestHeaders_client_def host_ops split: option.splits)

theorem egress_pass_through_witness:
  "map_of (request_headers (example_host\<lparr>request_headers := [('':authority'', ''sgnl-pdp-service:8082'')]\<rparr>))
     '':authority'' = Some ''sgnl-pdp-service:8082''
   \<and> fst (OnHttpRequestHeaders_client example_ctx_client 1 True
            (example_host\<lparr>request_headers := [('':authority'', ''sgnl-pdp-service:8082'')]\<rparr>))
       = ActionContinue
   \<and> dispatched (snd (OnHttpRequestHeaders_client example_ctx_client 1 True
            (example_host\<lparr>request_headers := [('':authority'', ''sgnl-pdp-service:8082'')]\<rparr>)))
       = []
   \<and> request_headers (snd (OnHttpRequestHeaders_client example_ctx_client 1 True
            (example_host\<lparr>request_headers := [('':authority'', ''sgnl-pdp-service:8082'')]\<rparr>)))
       = [('':authority'', ''sgnl-pdp-service:8082'')]"
  using egress_pass_through
    [where ctx = example_ctx_client and numHeaders = 1 and endOfStream = True
       and h = "example_host\<lparr>request_headers := [('':authority'', ''sgnl-pdp-service:8082'')]\<rparr>"]
  by (simp add: example_host_def OnHttpRequestHeaders_client_def host_ops)

text \<open>
  Claim C9. When the body of the issuer's answer cannot be read, cannot be parsed, or
  parses to an empty token, the callback resumes the request once, leaves every request
  header as it was, sends no response and dispatches nothing.
\<close>

theorem egress_fail_open:
  assumes "case GetHttpCallResponseBody 0 bodySize h of
             Inl err \<Rightarrow> True
           | Inr body \<Rightarrow> (case U body of Inl err \<Rightarrow> True | Inr tokenResp \<Rightarrow> Token tokenResp = [])"
  shows "request_headers (handleJWTResponse U ctx numHeaders bodySize numTrailers h) = request_headers h
       \<and> resume_calls (handleJWTResponse U ctx numHeaders bodySize numTrailers h) = Suc (resume_calls h)
       \<and> local_responses (handleJWTResponse U ctx numHeaders bodySize numTrailers h) = local_responses h
       \<and> dispatched (handleJWTResponse U ctx numHeaders bodySize numTrailers h) = dispatched h"
  using assms
  by (auto simp: handleJWTResponse_def host_ops Let_def split: option.splits sum.splits)

theorem egress_fail_open_witness:
  "example_Unmarshal_token example_no_token_body = Inr \<lparr>Token = [], ExpiresIn = 0\<rparr>
   \<and> request_headers (handleJWTResponse example_Unmarshal_token example_ctx_client 2 27 0
        (example_host\<lparr>request_headers := [('':authority'', ''service-b'')],
                       call_response_body := Some example_no_token_body\<rparr>))
       = [('':authority'', ''service-b'')]
   \<and> resume_calls (handleJWTResponse example_Unmarshal_token example_ctx_client 2 27 0
        (example_host\<lparr>request_headers := [('':authority'', ''service-b'')],
                       call_response_body := Some example_no_token_body\<rparr>)) = 1
   \<and> local_responses (handleJWTResponse example_Unmarshal_token example_ctx_client 2 27 0
        (example_host\<lparr>request_headers := [('':authority'', ''service-b'')],
                       call_response_body := Some example_no_token_body\<rparr>)) = []"
  using egress_fail_open
    [where bodySize = 27 and U = example_Unmarshal_token and ctx = example_ctx_client
       and numHeaders = 2 and numTrailers = 0
       and h = "example_host\<lparr>request_headers := [('':authority'', ''service-b'')],
                              call_response_body := Some example_no_token_body\<rparr>"]
  by (simp add: example_host_def example_Unmarshal_token_def example_bodies
        GetHttpCallResponseBody_def)

text \<open>
  Claim C7. A request to the designated target (\<^verbatim>\<open>service-b:8083\<close> or
  \<^verbatim>\<open>service-b\<close>) whose issuance call the host accepts, and whose answer parses to a
  token that is not empty: one call to the JWT vending service is dispatched, and after
  the callback the request headers are the old ones without any \<^verbatim>\<open>Authorization\<close>,
  followed by \<^verbatim>\<open>Authorization: Bearer <token>\<close> (provided the host applies the
  write), so that the header reads back as exactly that. On every path of the filter,
  with any deliveries of the callback, the headers other than \<^verbatim>\<open>Authorization\<close> are
  what they were.
\<close>

theorem egress_sets_only_authorization:
  assumes "map_of (request_headers h) '':authority'' = Some ''service-b:8083''
           \<or> map_of (request_headers h) '':authority'' = Some ''service-b''"
      and "dispatch_error h = None"
      and "U (take bodySize body) = Inr tokenResp"
      and "Token tokenResp \<noteq> []"
      and "header_write_error h = None"
  shows "request_headers
           (request_client U cid n e [(Some body, numHeaders, bodySize, numTrailers)] n' e' h)
         = filter (\<lambda>kv. fst kv \<noteq> ''Authorization'') (request_headers h)
             @ [(''Authorization'', ''Bearer '' @ Token tokenResp)]
       \<and> GetHttpRequestHeader ''Authorization''
           (request_client U cid n e [(Some body, numHeaders, bodySize, numTrailers)] n' e' h)
         = Inr (''Bearer '' @ Token tokenResp)
       \<and> length (dispatched
           (request_client U cid n e [(Some body, numHeaders, bodySize, numTrailers)] n' e' h))
         = Suc (length (dispatched h))
       \<and> filter (\<lambda>kv. fst kv \<noteq> ''Authorization'')
            (request_headers (request_client U' cid' m f ds m' f' g))
         = filter (\<lambda>kv. fst kv \<noteq> ''Authorization'') (request_headers g)"
proof -
  let ?ctx = "\<lparr>contextID_client = cid, token = []\<rparr>"
  let ?h1 = "snd (OnHttpRequestHeaders_client ?ctx n e h)"
  let ?h2 = "handleJWTResponse U ?ctx numHeaders bodySize numTrailers
               (?h1\<lparr>call_response_body := Some body\<rparr>)"
  have run: "request_client U cid n e [(Some body, numHeaders, bodySize, numTrailers)] n' e' h
             = snd (OnHttpResponseHeaders ?ctx n' e' ?h2)"
    by (simp add: request_client_def Let_def)
  have "request_headers ?h2
          = filter (\<lambda>kv. fst kv \<noteq> ''Authorization'')
              (request_headers (?h1\<lparr>call_response_body := Some body\<rparr>))
            @ [(''Authorization'', ''Bearer '' @ Token tokenResp)]"
    using assms(3-5)
    by (intro handleJWTResponse_token) (simp_all add: OnHttpRequestHeaders_client_keeps)
  then have hdrs: "request_headers ?h2
          = filter (\<lambda>kv. fst kv \<noteq> ''Authorization'') (request_headers h)
            @ [(''Authorization'', ''Bearer '' @ Token tokenResp)]"
    by (simp add: OnHttpRequestHeaders_client_keeps)
  have disp: "dispatched ?h2 = dispatched ?h1"
    by (simp add: handleJWTResponse_dispatched)
  have one: "length (dispatched ?h1) = Suc (length (dispatched h))"
    using OnHttpRequestHeaders_client_target [OF assms(1,2), of ?ctx n e] by simp
  have frame: "filter (\<lambda>kv. fst kv \<noteq> ''Authorization'')
                 (request_headers (request_client U' cid' m f ds m' f' g))
               = filter (\<lambda>kv. fst kv \<noteq> ''Authorization'') (request_headers g)"
    by (simp add: request_client_def Let_def OnHttpResponseHeaders_keeps
          deliver_client_other_headers OnHttpRequestHeaders_client_keeps)
  have rd: "map_of (request_headers ?h2) ''Authorization''
              = Some (''Bearer '' @ Token tokenResp)"
    unfolding hdrs by (rule map_of_replaced)
  have c1: "request_headers (snd (OnHttpResponseHeaders ?ctx n' e' ?h2))
              = filter (\<lambda>kv. fst kv \<noteq> ''Authorization'') (request_headers h)
                @ [(''Authorization'', ''Bearer '' @ Token tokenResp)]"
    using hdrs by (simp add: OnHttpResponseHeaders_keeps)
  have c2: "GetHttpRequestHeader ''Authorization'' (snd (OnHttpResponseHeaders ?ctx n' e' ?h2))
              = Inr (''Bearer '' @ Token tokenResp)"
    using rd by (simp add: GetHttpRequestHeader_def OnHttpResponseHeaders_keeps)
  have c3: "length (dispatched (snd (OnHttpResponseHeaders ?ctx n' e' ?h2)))
              = Suc (length (dispatched h))"
    using disp one by (simp add: OnHttpResponseHeaders_keeps)
  show ?thesis
    unfolding run using c1 c2 c3 frame by blast
qed

theorem egress_sets_only_authorization_witness:
  "example_Unmarshal_token (take 41 example_token_body)
     = Inr \<lparr>Token = ''aaa.bbb.ccc'', ExpiresIn = 3600\<rparr>
   \<and> request_headers
       (request_client example_Unmarshal_token 2 3 False [(Some example_token_body, 2, 41, 0)] 2 False
          (example_host\<lparr>request_headers :=
             [('':authority'', ''service-b:8083''), (''Authorization'', ''Basic abc''),
              (''x-request-id'', ''7'')]\<rparr>))
     = [('':authority'', ''service-b:8083''), (''x-request-id'', ''7''),
        (''Authorization'', ''Bearer aaa.bbb.ccc'')]"
  using egress_sets_only_authorization
    [where U = example_Unmarshal_token and bodySize = 41 and body = example_token_body
       and tokenResp = "\<lparr>Token = ''aaa.bbb.ccc'', ExpiresIn = 3600\<rparr>"
       and cid = 2 and n = 3 and e = False and numHeaders = 2 and numTrailers = 0
       and n' = 2 and e' = False
       and h = "example_host\<lparr>request_headers :=
             [('':authority'', ''service-b:8083''), (''Authorization'', ''Basic abc''),
              (''x-request-id'', ''7'')]\<rparr>"]
  by (simp add: example_host_def example_Unmarshal_token_def example_bodies)

section \<open>The ingress interceptor (server filter): the header handler\<close>

text \<open>
  Claim C6 as stated fails: before it looks at \<^verbatim>\<open>Authorization\<close> the handler reads
  \<^verbatim>\<open>:path\<close> and \<^verbatim>\<open>:method\<close>, and when either cannot be read it logs and returns
  \<open>ActionContinue\<close>. A request without \<^verbatim>\<open>:path\<close> and without \<^verbatim>\<open>Authorization\<close>
  is let through with no response sent.
\<close>

theorem no_path_passes_through:
  "map_of [('':method'', ''CONNECT''), ('':authority'', ''service-b:8083'')] ''Authorization'' = None
   \<and> fst (OnHttpRequestHeaders example_Marshal new_ctx 2 True
        (example_host\<lparr>request_headers :=
           [('':method'', ''CONNECT''), ('':authority'', ''service-b:8083'')]\<rparr>)) = ActionContinue
   \<and> local_responses (snd (snd (OnHttpRequestHeaders example_Marshal new_ctx 2 True
        (example_host\<lparr>request_headers :=
           [('':method'', ''CONNECT''), ('':authority'', ''service-b:8083'')]\<rparr>)))) = []"
  by (simp add: headers_no_path example_host_def host_ops)

text \<open>
  Claim C6 as amended. For a request whose \<^verbatim>\<open>Authorization\<close> header is missing, or
  does not start with \<^verbatim>\<open>Bearer \<close> (an empty value included), the handler dispatches
  nothing, requests no resume and writes no header, whatever else the request holds; and
  when \<^verbatim>\<open>:path\<close> and \<^verbatim>\<open>:method\<close> can be read it answers \<open>ActionPause\<close> and
  sends one 401 response, with the error \<^verbatim>\<open>Missing Authorization header\<close> for a missing
  or empty header and \<^verbatim>\<open>Invalid Authorization header format\<close> otherwise.
\<close>

theorem missing_or_malformed_authorization:
  assumes "case map_of (request_headers h) ''Authorization'' of
             None \<Rightarrow> True
           | Some a \<Rightarrow> \<not> HasPrefix a ''Bearer ''"
  shows \<open>dispatched (snd (snd (OnHttpRequestHeaders M ctx n e h))) = dispatched h
       \<and> resume_calls (snd (snd (OnHttpRequestHeaders M ctx n e h))) = resume_calls h
       \<and> request_headers (snd (snd (OnHttpRequestHeaders M ctx n e h))) = request_headers h
       \<and> (map_of (request_headers h) '':path'' \<noteq> None
            \<and> map_of (request_headers h) '':method'' \<noteq> None \<longrightarrow>
          fst (OnHttpRequestHeaders M ctx n e h) = ActionPause
          \<and> local_responses (snd (snd (OnHttpRequestHeaders M ctx n e h)))
              = local_responses h @
                [\<lparr>status_code = 401,
                  response_headers = [(''content-type'', ''application/json'')],
                  response_body =
                    ''{"error":"'' @
                    (if map_of (request_headers h) ''Authorization'' = None
                        \<or> map_of (request_headers h) ''Authorization'' = Some []
                     then ''Missing Authorization header''
                     else ''Invalid Authorization header format'') @ ''"}'',
                  grpc_status = -1\<rparr>])\<close>
proof (cases "map_of (request_headers h) '':path''")
  case None
  then show ?thesis by (simp add: headers_no_path host_ops)
next
  case p: (Some path)
  show ?thesis
  proof (cases "map_of (request_headers h) '':method''")
    case None
    with p show ?thesis by (simp add: headers_no_method host_ops)
  next
    case m: (Some meth)
    show ?thesis
    proof (cases "map_of (request_headers h) ''Authorization'' = None
                  \<or> map_of (request_headers h) ''Authorization'' = Some []")
      case True
      with p m show ?thesis by (simp add: headers_no_auth host_ops response_defs)
    next
      case False
      then obtain a where a: "map_of (request_headers h) ''Authorization'' = Some a" "a \<noteq> []"
        by auto
      with assms have "\<not> HasPrefix a ''Bearer ''"
        by simp
      with p m a show ?thesis
        by (simp add: headers_not_bearer host_ops response_defs)
    qed
  qed
qed

theorem missing_or_malformed_authorization_witness:
  \<open>\<not> HasPrefix ''Basic dXNlcg=='' ''Bearer ''
   \<and> fst (OnHttpRequestHeaders example_Marshal new_ctx 3 True
        (example_host\<lparr>request_headers :=
           [('':path'', ''/process?asset=asset-x''), ('':method'', ''GET''),
            (''Authorization'', ''Basic dXNlcg=='')]\<rparr>)) = ActionPause
   \<and> local_responses (snd (snd (OnHttpRequestHeaders example_Marshal new_ctx 3 True
        (example_host\<lparr>request_headers :=
           [('':path'', ''/process?asset=asset-x''), ('':method'', ''GET''),
            (''Authorization'', ''Basic dXNlcg=='')]\<rparr>))))
       = [\<lparr>status_code = 401, response_headers = [(''content-type'', ''application/json'')],
           response_body = ''{"error":"Invalid Authorization header format"}'',
           grpc_status = -1\<rparr>]
   \<and> dispatched (snd (snd (OnHttpRequestHeaders example_Marshal new_ctx 3 True
        (example_host\<lparr>request_headers :=
           [('':path'', ''/process?asset=asset-x''), ('':method'', ''GET''),
            (''Authorization'', ''Basic dXNlcg=='')]\<rparr>)))) = []\<close>
  using missing_or_malformed_authorization
    [where M = example_Marshal and ctx = new_ctx and n = 3 and e = True
       and h = "example_host\<lparr>request_headers :=
           [('':path'', ''/process?asset=asset-x''), ('':method'', ''GET''),
            (''Authorization'', ''Basic dXNlcg=='')]\<rparr>"]
  by (simp add: example_host_def HasPrefix_def)

text \<open>
  Claim C1 as stated fails: \<^verbatim>\<open>parseJWTClaims\<close> splits the token at the dots and counts
  the pieces; it decodes none of them. The token \<^verbatim>\<open>aaa.!!!.ccc\<close> has a payload segment
  that is not base64url, yet the request is not answered with a 401: one call is
  dispatched to the Policy Decision Service, for the principal \<^verbatim>\<open>service-a\<close>, which
  is the filter's default and no claim of the token.
\<close>

theorem undecodable_payload_counterexample:
  \<open>\<not> list_all base64url_char ''!!!''
   \<and> Split ''aaa.!!!.ccc'' ''.'' = [''aaa'', ''!!!'', ''ccc'']
   \<and> fst (OnHttpRequestHeaders example_Marshal new_ctx 3 True
            (example_request ''Bearer aaa.!!!.ccc'')) = ActionPause
   \<and> local_responses (snd (snd (OnHttpRequestHeaders example_Marshal new_ctx 3 True
            (example_request ''Bearer aaa.!!!.ccc'')))) = []
   \<and> principalID (fst (snd (OnHttpRequestHeaders example_Marshal new_ctx 3 True
            (example_request ''Bearer aaa.!!!.ccc'')))) = ''service-a''
   \<and> dispatched (snd (snd (OnHttpRequestHeaders example_Marshal new_ctx 3 True
            (example_request ''Bearer aaa.!!!.ccc''))))
       = [\<lparr>call_cluster = ''sgnl-pdp-service'',
           call_headers = [('':method'', ''POST''), ('':path'', ''/access/v2/evaluations''),
                           ('':authority'', ''sgnl-pdp-service:8082''),
                           (''content-type'', ''application/json'')],
           call_body =
             ''{"principal":{"id":"service-a"},"queries":[{"assetId":"asset-x","action":"call"}]}'',
           call_trailers = [], call_timeout = 5000\<rparr>]\<close>
proof -
  have len: "length (Split ''aaa.!!!.ccc'' ''.'') = 3"
    by (simp add: Split_example)
  have auth: "map_of (request_headers (example_request ''Bearer aaa.!!!.ccc'')) ''Authorization''
              = Some (''Bearer '' @ ''aaa.!!!.ccc'')"
    by (simp add: example_request_headers)
  note d = headers_good_token_dispatch
    [where M = example_Marshal and ctx = new_ctx and n = 3 and e = True,
     OF example_request_headers(1,2) auth len example_Marshal_total example_request_headers(5)]
  note p = headers_good_token_principal
    [where M = example_Marshal and ctx = new_ctx and n = 3 and e = True,
     OF example_request_headers(1,2) auth len]
  have alphabet: "\<not> list_all base64url_char ''!!!''"
    by (simp add: base64url_char_def)
  show ?thesis
    using d p alphabet
    by (simp add: example_request_headers extractAssetFromPath_example Split_example
          example_Marshal_def)
qed

text \<open>
  Claim C1 as amended. For a request whose \<^verbatim>\<open>:path\<close> and \<^verbatim>\<open>:method\<close> can be read
  and whose \<^verbatim>\<open>Authorization\<close> is \<^verbatim>\<open>Bearer <token>\<close>: when the token does not split
  at its dots into exactly three pieces, the handler answers \<open>ActionPause\<close>, sends one
  401 response with the error \<^verbatim>\<open>Invalid JWT: invalid JWT format\<close> and dispatches
  nothing. When it does, whatever the pieces hold, the principal is the
  \<^verbatim>\<open>X-Service-ID\<close> request header if there is one that is not empty and
  \<^verbatim>\<open>service-a\<close> otherwise; and if marshalling succeeds and the host accepts the call,
  no response is sent and exactly one call is dispatched.
\<close>

theorem bearer_principal_from_header:
  assumes "map_of (request_headers h) '':path'' = Some path"
      and "map_of (request_headers h) '':method'' = Some meth"
      and "map_of (request_headers h) ''Authorization'' = Some (''Bearer '' @ tok)"
  shows \<open>(length (Split tok ''.'') \<noteq> 3 \<longrightarrow>
            fst (OnHttpRequestHeaders M ctx n e h) = ActionPause
          \<and> local_responses (snd (snd (OnHttpRequestHeaders M ctx n e h)))
              = local_responses h @
                [\<lparr>status_code = 401,
                  response_headers = [(''content-type'', ''application/json'')],
                  response_body = ''{"error":"Invalid JWT: invalid JWT format"}'',
                  grpc_status = -1\<rparr>]
          \<and> dispatched (snd (snd (OnHttpRequestHeaders M ctx n e h))) = dispatched h)
       \<and> (length (Split tok ''.'') = 3 \<longrightarrow>
            principalID (fst (snd (OnHttpRequestHeaders M ctx n e h)))
              = (case map_of (request_headers h) ''X-Service-ID'' of
                   None \<Rightarrow> ''service-a''
                 | Some s \<Rightarrow> if s = [] then ''service-a'' else s)
          \<and> ((\<forall>r. \<not> isl (M r)) \<and> dispatch_error h = None \<longrightarrow>
                local_responses (snd (snd (OnHttpRequestHeaders M ctx n e h))) = local_responses h
              \<and> length (dispatched (snd (snd (OnHttpRequestHeaders M ctx n e h))))
                  = Suc (length (dispatched h))))\<close>
proof (cases "length (Split tok ''.'') = 3")
  case False
  then show ?thesis
    using assms by (simp add: headers_bad_token host_ops response_defs)
next
  case True
  have p: "principalID (fst (snd (OnHttpRequestHeaders M ctx n e h)))
           = (case map_of (request_headers h) ''X-Service-ID'' of
                None \<Rightarrow> ''service-a''
              | Some s \<Rightarrow> if s = [] then ''service-a'' else s)"
    using assms True by (rule headers_good_token_principal)
  have d: "local_responses (snd (snd (OnHttpRequestHeaders M ctx n e h))) = local_responses h
         \<and> length (dispatched (snd (snd (OnHttpRequestHeaders M ctx n e h))))
             = Suc (length (dispatched h))"
    if "\<forall>r. \<not> isl (M r)" and "dispatch_error h = None"
    using headers_good_token_dispatch [where M = M and ctx = ctx and n = n and e = e,
        OF assms True _ that(2)] that(1)
    by simp
  show ?thesis
    using True p d by blast
qed

theorem bearer_principal_from_header_witness:
  \<open>length (Split ''opaque'' ''.'') = 1
   \<and> local_responses (snd (snd (OnHttpRequestHeaders example_Marshal new_ctx 3 True
        (example_request ''Bearer opaque''))))
       = [\<lparr>status_code = 401, response_headers = [(''content-type'', ''application/json'')],
           response_body = ''{"error":"Invalid JWT: invalid JWT format"}'',
           grpc_status = -1\<rparr>]
   \<and> dispatched (snd (snd (OnHttpRequestHeaders example_Marshal new_ctx 3 True
        (example_request ''Bearer opaque'')))) = []
   \<and> length (Split ''aaa.bbb.ccc'' ''.'') = 3
   \<and> principalID (fst (snd (OnHttpRequestHeaders example_Marshal new_ctx 4 True
        ((example_request ''Bearer aaa.bbb.ccc'')
           \<lparr>request_headers := request_headers (example_request ''Bearer aaa.bbb.ccc'')
                                  @ [(''X-Service-ID'', ''service-z'')]\<rparr>)))) = ''service-z''\<close>
  using bearer_principal_from_header
    [where h = "example_request ''Bearer opaque''" and path = "''/process?asset=asset-x''"
       and meth = "''GET''" and tok = "''opaque''" and M = example_Marshal and ctx = new_ctx
       and n = 3 and e = True]
    bearer_principal_from_header
    [where h = "(example_request ''Bearer aaa.bbb.ccc'')
           \<lparr>request_headers := request_headers (example_request ''Bearer aaa.bbb.ccc'')
                                  @ [(''X-Service-ID'', ''service-z'')]\<rparr>"
       and path = "''/process?asset=asset-x''"
       and meth = "''GET''" and tok = "''aaa.bbb.ccc''" and M = example_Marshal and ctx = new_ctx
       and n = 4 and e = True]
  by (simp add: Split_example example_request_def example_host_def)

section \<open>The ingress interceptor (server filter): the callback\<close>

text \<open>
  Claim C4 as stated fails: the callback writes the decision with
  \<^verbatim>\<open>AddHttpRequestHeader\<close>, which adds a value and replaces none. A request that
  already carries \<^verbatim>\<open>X-PDP-Decision: Deny\<close> and \<^verbatim>\<open>X-Principal-ID: admin\<close>, and whose
  first decision is \<open>Allow\<close>, is resumed with the pairs appended, and the two headers
  still read \<^verbatim>\<open>Deny\<close> and \<^verbatim>\<open>admin\<close>.
\<close>

theorem allow_header_counterexample:
  "example_Unmarshal example_allow_body
     = Inr \<lparr>Decisions = [\<lparr>Decision = ''Allow'', Reason = ''ok''\<rparr>]\<rparr>
   \<and> resume_calls (OnHttpCallResponse example_Unmarshal example_ctx 2 50 0
        (example_host\<lparr>request_headers :=
                         [(''X-PDP-Decision'', ''Deny''), (''X-Principal-ID'', ''admin'')],
                       call_response_body := Some example_allow_body\<rparr>)) = 1
   \<and> request_headers (OnHttpCallResponse example_Unmarshal example_ctx 2 50 0
        (example_host\<lparr>request_headers :=
                         [(''X-PDP-Decision'', ''Deny''), (''X-Principal-ID'', ''admin'')],
                       call_response_body := Some example_allow_body\<rparr>))
       = [(''X-PDP-Decision'', ''Deny''), (''X-Principal-ID'', ''admin''),
          (''X-PDP-Decision'', ''Allow''), (''X-PDP-Reason'', ''ok''),
          (''X-Principal-ID'', ''service-a'')]
   \<and> GetHttpRequestHeader ''X-PDP-Decision''
        (OnHttpCallResponse example_Unmarshal example_ctx 2 50 0
          (example_host\<lparr>request_headers :=
                           [(''X-PDP-Decision'', ''Deny''), (''X-Principal-ID'', ''admin'')],
                         call_response_body := Some example_allow_body\<rparr>)) = Inr ''Deny''
   \<and> GetHttpRequestHeader ''X-PDP-Decision''
        (OnHttpCallResponse example_Unmarshal example_ctx 2 50 0
          (example_host\<lparr>request_headers :=
                           [(''X-PDP-Decision'', ''Deny''), (''X-Principal-ID'', ''admin'')],
                         call_response_body := Some example_allow_body\<rparr>)) \<noteq> Inr ''Allow''
   \<and> GetHttpRequestHeader ''X-Principal-ID''
        (OnHttpCallResponse example_Unmarshal example_ctx 2 50 0
          (example_host\<lparr>request_headers :=
                           [(''X-PDP-Decision'', ''Deny''), (''X-Principal-ID'', ''admin'')],
                         call_response_body := Some example_allow_body\<rparr>)) = Inr ''admin''"
  by (simp add: example_host_def example_ctx_def example_Unmarshal_def example_bodies
        callback_defs host_ops)

text \<open>
  Claim C4 as amended. When the answer of the Policy Decision Service is readable and
  parses, and its first decision is \<open>Allow\<close>, the callback requests resume once and
  sends no response; and where the host applies header writes, the request headers are
  the old ones followed by \<^verbatim>\<open>X-PDP-Decision: Allow\<close>, \<^verbatim>\<open>X-PDP-Reason\<close> with the
  decision's reason and \<^verbatim>\<open>X-Principal-ID\<close> with the principal of the context. Read by
  name, each of the three headers then gives the value the request already carried under
  that name, and the appended value only when it carried none: \<^verbatim>\<open>X-PDP-Decision\<close>
  reads \<^verbatim>\<open>Allow\<close> exactly when the request had no such header or had it as
  \<^verbatim>\<open>Allow\<close>.
\<close>

theorem allow_resumes_with_decision_headers:
  assumes "GetHttpCallResponseBody 0 bodySize h = Inr body"
      and "U body = Inr evalResp"
      and "Decisions evalResp = decision # rest"
      and "Decision decision = ''Allow''"
  shows "resume_calls (OnHttpCallResponse U ctx numHeaders bodySize numTrailers h)
           = Suc (resume_calls h)
       \<and> local_responses (OnHttpCallResponse U ctx numHeaders bodySize numTrailers h)
           = local_responses h
       \<and> (header_write_error h = None \<longrightarrow>
            request_headers (OnHttpCallResponse U ctx numHeaders bodySize numTrailers h)
              = request_headers h @ [(''X-PDP-Decision'', ''Allow''),
                                     (''X-PDP-Reason'', Reason decision),
                                     (''X-Principal-ID'', principalID ctx)]
          \<and> GetHttpRequestHeader ''X-PDP-Decision''
               (OnHttpCallResponse U ctx numHeaders bodySize numTrailers h)
              = Inr (case map_of (request_headers h) ''X-PDP-Decision'' of
                       None \<Rightarrow> ''Allow'' | Some v \<Rightarrow> v)
          \<and> GetHttpRequestHeader ''X-PDP-Reason''
               (OnHttpCallResponse U ctx numHeaders bodySize numTrailers h)
              = Inr (case map_of (request_headers h) ''X-PDP-Reason'' of
                       None \<Rightarrow> Reason decision | Some v \<Rightarrow> v)
          \<and> GetHttpRequestHeader ''X-Principal-ID''
               (OnHttpCallResponse U ctx numHeaders bodySize numTrailers h)
              = Inr (case map_of (request_headers h) ''X-Principal-ID'' of
                       None \<Rightarrow> principalID ctx | Some v \<Rightarrow> v)
          \<and> (GetHttpRequestHeader ''X-PDP-Decision''
               (OnHttpCallResponse U ctx numHeaders bodySize numTrailers h) = Inr ''Allow''
              \<longleftrightarrow> map_of (request_headers h) ''X-PDP-Decision'' \<in> {None, Some ''Allow''}))"
proof -
  let ?h' = "OnHttpCallResponse U ctx numHeaders bodySize numTrailers h"
  have r: "resume_calls ?h' = Suc (resume_calls h)" and l: "local_responses ?h' = local_responses h"
    using assms by (auto simp: callback_defs host_ops Let_def split: option.splits)
  have w: "request_headers ?h'
             = request_headers h @ [(''X-PDP-Decision'', ''Allow''),
                                    (''X-PDP-Reason'', Reason decision),
                                    (''X-Principal-ID'', principalID ctx)]"
    if "header_write_error h = None"
    using assms that by (simp add: callback_defs host_ops Let_def)
  have g: "GetHttpRequestHeader k ?h'
             = Inr (case map_of (request_headers h) k of
                      None \<Rightarrow> the (map_of [(''X-PDP-Decision'', ''Allow''),
                                           (''X-PDP-Reason'', Reason decision),
                                           (''X-Principal-ID'', principalID ctx)] k)
                    | Some v \<Rightarrow> v)"
    if "header_write_error h = None"
      and "k \<in> {''X-PDP-Decision'', ''X-PDP-Reason'', ''X-Principal-ID''}" for k
    using that(2) unfolding GetHttpRequestHeader_def w [OF that(1)]
    by (auto simp: map_add_def split: option.split)
  show ?thesis
    using r l w g [of "''X-PDP-Decision''"] g [of "''X-PDP-Reason''"] g [of "''X-Principal-ID''"]
    by (auto split: option.splits)
qed

theorem allow_resumes_with_decision_headers_witness:
  "GetHttpCallResponseBody 0 50
     (example_host\<lparr>request_headers := [('':path'', ''/process?asset=asset-x'')],
                    call_response_body := Some example_allow_body\<rparr>) = Inr example_allow_body
   \<and> example_Unmarshal example_allow_body
       = Inr \<lparr>Decisions = [\<lparr>Decision = ''Allow'', Reason = ''ok''\<rparr>]\<rparr>
   \<and> resume_calls (OnHttpCallResponse example_Unmarshal example_ctx 2 50 0
        (example_host\<lparr>request_headers := [('':path'', ''/process?asset=asset-x'')],
                       call_response_body := Some example_allow_body\<rparr>)) = 1
   \<and> local_responses (OnHttpCallResponse example_Unmarshal example_ctx 2 50 0
        (example_host\<lparr>request_headers := [('':path'', ''/process?asset=asset-x'')],
                       call_response_body := Some example_allow_body\<rparr>)) = []
   \<and> request_headers (OnHttpCallResponse example_Unmarshal example_ctx 2 50 0
        (example_host\<lparr>request_headers := [('':path'', ''/process?asset=asset-x'')],
                       call_response_body := Some example_allow_body\<rparr>))
       = [('':path'', ''/process?asset=asset-x''), (''X-PDP-Decision'', ''Allow''),
          (''X-PDP-Reason'', ''ok''), (''X-Principal-ID'', ''service-a'')]
   \<and> GetHttpRequestHeader ''X-PDP-Decision''
        (OnHttpCallResponse example_Unmarshal example_ctx 2 50 0
          (example_host\<lparr>request_headers := [('':path'', ''/process?asset=asset-x'')],
                         call_response_body := Some example_allow_body\<rparr>)) = Inr ''Allow''"
  using allow_resumes_with_decision_headers
    [where bodySize = 50 and body = example_allow_body and U = example_Unmarshal
       and evalResp = "\<lparr>Decisions = [\<lparr>Decision = ''Allow'', Reason = ''ok''\<rparr>]\<rparr>"
       and decision = "\<lparr>Decision = ''Allow'', Reason = ''ok''\<rparr>" and rest = "[]"
       and ctx = example_ctx and numHeaders = 2 and numTrailers = 0
       and h = "example_host\<lparr>request_headers := [('':path'', ''/process?asset=asset-x'')],
                              call_response_body := Some example_allow_body\<rparr>"]
  by (simp add: example_host_def example_ctx_def example_Unmarshal_def example_bodies
        GetHttpCallResponseBody_def)

text \<open>
  Claim C3. The denial body is written by \<^verbatim>\<open>fmt.Sprintf\<close> with \<^verbatim>\<open>"%s"\<close>: the reason
  is spliced between two quotes as it is, with no JSON escaping. The Policy Decision
  Service answers \<^verbatim>\<open>{"decisions":[{"decision":"Deny","reason":"no access to y\""}]}\<close>,
  whose reason is the text \<^verbatim>\<open>no access to y"\<close> (the service builds its reasons from
  the asset name of the query, which the caller chooses). The filter sends a 403 whose
  body ends in \<^verbatim>\<open>"reason":"no access to y""}}\<close>; it is not a JSON document, and no
  \<^verbatim>\<open>pdp_response.reason\<close> equal to the service's reason can be read from it.
\<close>

theorem deny_reason_not_escaped:
  \<open>example_Unmarshal example_quote_body
     = Inr \<lparr>Decisions = [\<lparr>Decision = ''Deny'', Reason = ''no access to y"''\<rparr>]\<rparr>
   \<and> local_responses (OnHttpCallResponse example_Unmarshal example_ctx 2 64 0
        (example_host\<lparr>call_response_body := Some example_quote_body\<rparr>))
       = [\<lparr>status_code = 403, response_headers = [(''content-type'', ''application/json'')],
           response_body =
             ''{"error":"Access denied by policy","pdp_response":{"decision":"Deny","reason":"no access to y""}}'',
           grpc_status = -1\<rparr>]
   \<and> pdp_response_reason
         ''{"error":"Access denied by policy","pdp_response":{"decision":"Deny","reason":"no access to y""}}''
       = None
   \<and> pdp_response_reason
         (response_body (last (local_responses (OnHttpCallResponse example_Unmarshal example_ctx 2 64 0
            (example_host\<lparr>call_response_body := Some example_quote_body\<rparr>)))))
       \<noteq> Some ''no access to y"''\<close>
proof -
  have u: \<open>example_Unmarshal example_quote_body
           = Inr \<lparr>Decisions = [\<lparr>Decision = ''Deny'', Reason = ''no access to y"''\<rparr>]\<rparr>\<close>
    by (simp add: example_Unmarshal_def example_bodies)
  have b: "GetHttpCallResponseBody 0 64 (example_host\<lparr>call_response_body := Some example_quote_body\<rparr>)
           = Inr example_quote_body"
    by (simp add: GetHttpCallResponseBody_def example_bodies)
  have r: \<open>local_responses (OnHttpCallResponse example_Unmarshal example_ctx 2 64 0
        (example_host\<lparr>call_response_body := Some example_quote_body\<rparr>))
       = [\<lparr>status_code = 403, response_headers = [(''content-type'', ''application/json'')],
           response_body =
             ''{"error":"Access denied by policy","pdp_response":{"decision":"Deny","reason":"no access to y""}}'',
           grpc_status = -1\<rparr>]\<close>
    using OnHttpCallResponse_deny
      [where bodySize = 64 and body = example_quote_body and U = example_Unmarshal
         and decision = \<open>\<lparr>Decision = ''Deny'', Reason = ''no access to y"''\<rparr>\<close>
         and rest = "[]" and ctx = example_ctx and n = 2 and t = 0
         and h = "example_host\<lparr>call_response_body := Some example_quote_body\<rparr>", OF b u]
    by (simp add: example_host_def)
  have p: \<open>pdp_response_reason
         ''{"error":"Access denied by policy","pdp_response":{"decision":"Deny","reason":"no access to y""}}''
       = None\<close>
    by (simp add: pdp_response_reason_def expect_def HasPrefix_def)
  show ?thesis
    unfolding r using u p by simp
qed




section \<open>The ingress interceptor (server filter): a policy callout that fails\<close>

text \<open>
  Claim C5. The policy callout fails in one of four ways: the host refuses the dispatch
  (after the token has been accepted and the request marshalled), the body of the answer
  cannot be read (which is also how a call that timed out or failed in transport
  arrives), the body does not parse, or it parses to an empty list of decisions. In each
  of them the filter sends the same response, a 403 whose body is
  \<^verbatim>\<open>{"error":"Policy evaluation failed","pdp_response":{"decision":"Deny","reason":""}}\<close>
  (written with a capital P in the code), requests no resume and writes no request
  header.
\<close>

theorem policy_failure_fail_closed:
  \<open>(map_of (request_headers h) '':path'' = Some path
      \<and> map_of (request_headers h) '':method'' = Some meth
      \<and> map_of (request_headers h) ''Authorization'' = Some (''Bearer '' @ tok)
      \<and> length (Split tok ''.'') = 3
      \<and> (\<forall>r. \<not> isl (M r))
      \<and> dispatch_error h = Some err \<longrightarrow>
        fst (OnHttpRequestHeaders M ctx n e h) = ActionPause
      \<and> local_responses (snd (snd (OnHttpRequestHeaders M ctx n e h)))
          = local_responses h @
            [\<lparr>status_code = 403, response_headers = [(''content-type'', ''application/json'')],
              response_body =
                ''{"error":"Policy evaluation failed","pdp_response":{"decision":"Deny","reason":""}}'',
              grpc_status = -1\<rparr>]
      \<and> dispatched (snd (snd (OnHttpRequestHeaders M ctx n e h))) = dispatched h
      \<and> resume_calls (snd (snd (OnHttpRequestHeaders M ctx n e h))) = resume_calls h
      \<and> request_headers (snd (snd (OnHttpRequestHeaders M ctx n e h))) = request_headers h)
   \<and> ((case GetHttpCallResponseBody 0 bodySize g of
         Inl err \<Rightarrow> True
       | Inr body \<Rightarrow> (case U body of Inl err \<Rightarrow> True | Inr evalResp \<Rightarrow> Decisions evalResp = []))
       \<longrightarrow>
        local_responses (OnHttpCallResponse U ctx' numHeaders bodySize numTrailers g)
          = local_responses g @
            [\<lparr>status_code = 403, response_headers = [(''content-type'', ''application/json'')],
              response_body =
                ''{"error":"Policy evaluation failed","pdp_response":{"decision":"Deny","reason":""}}'',
              grpc_status = -1\<rparr>]
      \<and> resume_calls (OnHttpCallResponse U ctx' numHeaders bodySize numTrailers g) = resume_calls g
      \<and> request_headers (OnHttpCallResponse U ctx' numHeaders bodySize numTrailers g)
          = request_headers g)\<close>
  using headers_dispatch_failure
      [where h = h and path = path and meth = meth and tok = tok and M = M and err = err
         and ctx = ctx and n = n and e = e]
    OnHttpCallResponse_failure
      [where bodySize = bodySize and h = g and U = U and ctx = ctx' and n = numHeaders
         and t = numTrailers]
  by blast

theorem policy_failure_fail_closed_witness:
  \<open>local_responses (snd (snd (OnHttpRequestHeaders example_Marshal new_ctx 3 True
        ((example_request ''Bearer aaa.bbb.ccc'')\<lparr>dispatch_error := Some (Err ''bad argument'')\<rparr>))))
     = [\<lparr>status_code = 403, response_headers = [(''content-type'', ''application/json'')],
         response_body =
           ''{"error":"Policy evaluation failed","pdp_response":{"decision":"Deny","reason":""}}'',
         grpc_status = -1\<rparr>]
   \<and> local_responses (OnHttpCallResponse example_Unmarshal example_ctx 0 0 0 example_host)
     = [\<lparr>status_code = 403, response_headers = [(''content-type'', ''application/json'')],
         response_body =
           ''{"error":"Policy evaluation failed","pdp_response":{"decision":"Deny","reason":""}}'',
         grpc_status = -1\<rparr>]
   \<and> local_responses (OnHttpCallResponse example_Unmarshal example_ctx 2 9 0
        (example_host\<lparr>call_response_body := Some ''not json!''\<rparr>))
     = [\<lparr>status_code = 403, response_headers = [(''content-type'', ''application/json'')],
         response_body =
           ''{"error":"Policy evaluation failed","pdp_response":{"decision":"Deny","reason":""}}'',
         grpc_status = -1\<rparr>]
   \<and> local_responses (OnHttpCallResponse example_Unmarshal example_ctx 2 16 0
        (example_host\<lparr>call_response_body := Some example_empty_body\<rparr>))
     = [\<lparr>status_code = 403, response_headers = [(''content-type'', ''application/json'')],
         response_body =
           ''{"error":"Policy evaluation failed","pdp_response":{"decision":"Deny","reason":""}}'',
         grpc_status = -1\<rparr>]\<close>
  using policy_failure_fail_closed
    [where h = "(example_request ''Bearer aaa.bbb.ccc'')\<lparr>dispatch_error := Some (Err ''bad argument'')\<rparr>"
       and path = "''/process?asset=asset-x''" and meth = "''GET''" and tok = "''aaa.bbb.ccc''"
       and M = example_Marshal and err = "Err ''bad argument''" and ctx = new_ctx and n = 3
       and e = True
       and g = example_host and U = example_Unmarshal and ctx' = example_ctx
       and numHeaders = 0 and bodySize = 0 and numTrailers = 0]
    policy_failure_fail_closed
    [where g = "example_host\<lparr>call_response_body := Some ''not json!''\<rparr>"
       and U = example_Unmarshal and ctx' = example_ctx
       and numHeaders = 2 and bodySize = 9 and numTrailers = 0]
    policy_failure_fail_closed
    [where g = "example_host\<lparr>call_response_body := Some example_empty_body\<rparr>"
       and U = example_Unmarshal and ctx' = example_ctx
       and numHeaders = 2 and bodySize = 16 and numTrailers = 0]
  by (simp add: Split_example example_request_def example_host_def example_Marshal_total
        example_Unmarshal_def example_bodies GetHttpCallResponseBody_def)

section \<open>One dispatch for each intercepted request\<close>

text \<open>
  Claim C10. One intercepted request is one run of the header handler followed by the
  deliveries of the callback (and, for the client, the response headers). Whatever the
  request, the host and the deliveries, the calls dispatched by the end of the run are
  the ones dispatched before it, or those and one more: the header handler dispatches at
  most once, and the callbacks never dispatch. The server keeps the one callout
  identifier in the field \<open>calloutID\<close> of its context.
\<close>

theorem one_dispatch_per_request:
  "(dispatched (request_server M U cid n e ds h) = dispatched h
      \<or> (\<exists>c. dispatched (request_server M U cid n e ds h) = dispatched h @ [c]))
   \<and> (dispatched (request_client U' cid' n' e' ds' m' f' h') = dispatched h'
      \<or> (\<exists>c. dispatched (request_client U' cid' n' e' ds' m' f' h') = dispatched h' @ [c]))
   \<and> dispatched (OnHttpCallResponse U ctx a b t g) = dispatched g
   \<and> dispatched (handleJWTResponse U' ctx' a' b' t' g') = dispatched g'
   \<and> dispatched (snd (OnHttpResponseHeaders ctx' a'' e'' g'')) = dispatched g''"
proof -
  have s: "dispatched (request_server M U cid n e ds h)
           = dispatched (snd (snd (OnHttpRequestHeaders M
               \<lparr>contextID = cid, calloutID = 0, jwtToken = [], principalID = [],
                assetID = [], requestPath = [], requestMethod = []\<rparr> n e h)))"
    by (simp add: request_server_def deliver_server_dispatched split: prod.split)
  have c: "dispatched (request_client U' cid' n' e' ds' m' f' h')
           = dispatched (snd (OnHttpRequestHeaders_client
               \<lparr>contextID_client = cid', token = []\<rparr> n' e' h'))"
    by (simp add: request_client_def Let_def OnHttpResponseHeaders_keeps
          deliver_client_dispatched)
  show ?thesis
    unfolding s c
    using OnHttpRequestHeaders_dispatched OnHttpRequestHeaders_client_dispatched
    by (simp add: OnHttpCallResponse_dispatched handleJWTResponse_dispatched
          OnHttpResponseHeaders_keeps)
qed

text \<open>A run of the server filter at which Claim C10's theorem is read: the example
  request, whose callback is delivered twice.\<close>

theorem one_dispatch_per_request_witness:
  "length (dispatched
     (request_server example_Marshal example_Unmarshal 2 3 True
        [(Some example_allow_body, 2, 50, 0), (Some example_allow_body, 2, 50, 0)]
        (example_request ''Bearer aaa.bbb.ccc''))) = 1"
proof -
  have len: "length (Split ''aaa.bbb.ccc'' ''.'') = 3"
    by (simp add: Split_example)
  have auth: "map_of (request_headers (example_request ''Bearer aaa.bbb.ccc'')) ''Authorization''
              = Some (''Bearer '' @ ''aaa.bbb.ccc'')"
    by (simp add: example_request_headers)
  note d = headers_good_token_dispatch
    [where M = example_Marshal,
     OF example_request_headers(1,2) auth len example_Marshal_total example_request_headers(5)]
  show ?thesis
    using one_dispatch_per_request
      [where M = example_Marshal and U = example_Unmarshal and cid = 2 and n = 3 and e = True
         and ds = "[(Some example_allow_body, 2, 50, 0), (Some example_allow_body, 2, 50, 0)]"
         and h = "example_request ''Bearer aaa.bbb.ccc''"]
    by (simp add: request_server_dispatched d example_request_headers)
qed

end
